theory Spec2Isabelle
  imports Complex_Main "HOL-Library.Sublist"
begin

section \<open>JavaScript numbers\<close>

text \<open>
  A JavaScript number is an IEEE 754 double. The model keeps the three special values
  and takes the finite ones as reals: arithmetic on finite values is exact (rounding and
  overflow are left out), zero carries no sign, and a zero divisor counts as \<open>+0\<close>
  (the zero divisors of the code below are \<open>x - x\<close>, a string length and a box extent,
  which are \<open>+0\<close>). Comparisons with \<open>NaN\<close> are false.
\<close>

datatype jsnum = Fin real | PInf | NInf | NaN

fun jneg :: "jsnum \<Rightarrow> jsnum" where
  "jneg (Fin x) = Fin (- x)"
| "jneg PInf = NInf"
| "jneg NInf = PInf"
| "jneg NaN = NaN"

fun jadd :: "jsnum \<Rightarrow> jsnum \<Rightarrow> jsnum" where
  "jadd NaN _ = NaN"
| "jadd _ NaN = NaN"
| "jadd (Fin x) (Fin y) = Fin (x + y)"
| "jadd PInf NInf = NaN"
| "jadd NInf PInf = NaN"
| "jadd PInf _ = PInf"
| "jadd NInf _ = NInf"
| "jadd (Fin x) b = b"

text \<open>The infinity with the sign of a real, for a product or quotient with an infinity.\<close>

definition signed_inf :: "real \<Rightarrow> jsnum" where
  "signed_inf x = (if x = 0 then NaN else if 0 < x then PInf else NInf)"

fun jmul :: "jsnum \<Rightarrow> jsnum \<Rightarrow> jsnum" where
  "jmul NaN _ = NaN"
| "jmul _ NaN = NaN"
| "jmul (Fin x) (Fin y) = Fin (x * y)"
| "jmul (Fin x) PInf = signed_inf x"
| "jmul (Fin x) NInf = signed_inf (- x)"
| "jmul PInf (Fin y) = signed_inf y"
| "jmul NInf (Fin y) = signed_inf (- y)"
| "jmul PInf PInf = PInf"
| "jmul NInf NInf = PInf"
| "jmul PInf NInf = NInf"
| "jmul NInf PInf = NInf"

fun jdiv :: "jsnum \<Rightarrow> jsnum \<Rightarrow> jsnum" where
  "jdiv NaN _ = NaN"
| "jdiv _ NaN = NaN"
| "jdiv (Fin x) (Fin y) = (if y = 0 then signed_inf x else Fin (x / y))"
| "jdiv (Fin x) _ = Fin 0"
| "jdiv PInf (Fin y) = (if 0 \<le> y then PInf else NInf)"
| "jdiv NInf (Fin y) = (if 0 \<le> y then NInf else PInf)"
| "jdiv _ _ = NaN"

fun jlt :: "jsnum \<Rightarrow> jsnum \<Rightarrow> bool" where
  "jlt NaN _ = False"
| "jlt _ NaN = False"
| "jlt (Fin x) (Fin y) = (x < y)"
| "jlt _ NInf = False"
| "jlt NInf _ = True"
| "jlt PInf _ = False"
| "jlt (Fin x) PInf = True"

text \<open>\<open>Math.min\<close> and \<open>Math.max\<close> of two arguments: \<open>NaN\<close> when either is.\<close>

fun Math_min :: "jsnum \<Rightarrow> jsnum \<Rightarrow> jsnum" where
  "Math_min NaN _ = NaN"
| "Math_min _ NaN = NaN"
| "Math_min a b = (if jlt b a then b else a)"

fun Math_max :: "jsnum \<Rightarrow> jsnum \<Rightarrow> jsnum" where
  "Math_max NaN _ = NaN"
| "Math_max _ NaN = NaN"
| "Math_max a b = (if jlt a b then b else a)"

text \<open>The operators of the source are written with the usual symbols.\<close>

instantiation jsnum :: "{plus, minus, uminus, times, inverse, ord}"
begin

definition plus_jsnum_def [simp]: "a + b = jadd a b"

definition uminus_jsnum_def [simp]: "- a = jneg a"

definition minus_jsnum_def [simp]: "a - b = jadd a (jneg b)"

definition times_jsnum_def [simp]: "a * b = jmul a b"

definition divide_jsnum_def [simp]: "a div b = jdiv a b"

definition inverse_jsnum_def [simp]: "inverse a = jdiv (Fin 1) a"

definition less_jsnum_def [simp]: "a < b = jlt a b"

definition less_eq_jsnum_def [simp]: "a \<le> b = (jlt a b \<or> (a = b \<and> a \<noteq> NaN))"

instance ..

end

definition Math_PI :: jsnum where
  "Math_PI = Fin pi"

section \<open>The trace\<close>

text \<open>
  The fields of a full indicator trace that \<open>plot\<close> reads. A field that may be
  \<open>undefined\<close> is an option. \<open>deltaLastValue\<close> is the field \<open>_deltaLastValue\<close>
  that \<open>plot\<close> stores on the trace.
\<close>

datatype gauge_shape = angular | bullet

text \<open>
  The object that \<open>drawArc\<close> and \<open>styleArc\<close> read: a step of the gauge, and the
  background, threshold and outline that \<open>plot\<close> re-expresses in the same form.
\<close>

record arc =
  arc_range :: "jsnum \<times> jsnum"
  arc_color :: string
  arc_line_color :: string
  arc_line_width :: jsnum
  arc_height :: jsnum

record threshold =
  threshold_value :: "jsnum option"
  threshold_color :: string
  threshold_width :: jsnum
  threshold_height :: jsnum

record gauge =
  shape :: gauge_shape
  bgcolor :: string
  bordercolor :: string
  borderwidth :: jsnum
  steps :: "arc list"
  threshold :: threshold
  value_height :: jsnum

record delta_attrs =
  showpercentage :: bool
  position :: string

record trace =
  mode :: string
  trace_min :: jsnum
  trace_max :: jsnum
  title_text :: string
  title_align :: string
  number_align :: string
  delta :: delta_attrs
  gauge :: gauge
  deltaLastValue :: "jsnum option"

section \<open>Value mapper\<close>

definition theta :: jsnum where
  "theta = Math_PI / Fin 2"

definition valueToAngle :: "trace \<Rightarrow> jsnum \<Rightarrow> jsnum" where
  "valueToAngle trace v =
     (let angle = (v - trace_min trace) / (trace_max trace - trace_min trace) * Math_PI - theta
      in if angle < - theta then - theta
         else if angle > theta then theta
         else angle)"

text \<open>
  The angle that the clamp leaves for the fraction \<open>r\<close> of the range that a value
  has covered; it states the results below.
\<close>

definition clamped :: "real \<Rightarrow> real" where
  "clamped r = (if r < 0 then - (pi / 2) else if 1 < r then pi / 2 else r * pi - pi / 2)"

section \<open>Mode flags\<close>

text \<open>\<open>String.prototype.indexOf\<close>: the first position of \<open>pat\<close> in \<open>s\<close>, or \<open>-1\<close>.\<close>

fun indexOf :: "string \<Rightarrow> string \<Rightarrow> int" where
  "indexOf [] pat = (if pat = [] then 0 else - 1)"
| "indexOf (c # cs) pat =
     (if prefix pat (c # cs) then 0
      else (let i = indexOf cs pat in if i = - 1 then - 1 else i + 1))"

definition hasTitle :: "trace \<Rightarrow> bool" where
  "hasTitle trace = (title_text trace \<noteq> [])"

definition hasBigNumber :: "trace \<Rightarrow> bool" where
  "hasBigNumber trace = (indexOf (mode trace) ''bignumber'' \<noteq> - 1)"

definition hasDelta :: "trace \<Rightarrow> bool" where
  "hasDelta trace = (indexOf (mode trace) ''delta'' \<noteq> - 1)"

definition hasGauge :: "trace \<Rightarrow> bool" where
  "hasGauge trace = (indexOf (mode trace) ''gauge'' \<noteq> - 1)"

definition isAngular :: "trace \<Rightarrow> bool" where
  "isAngular trace = (hasGauge trace \<and> shape (gauge trace) = angular)"

definition isBullet :: "trace \<Rightarrow> bool" where
  "isBullet trace = (hasGauge trace \<and> shape (gauge trace) = bullet)"

section \<open>Layout planner\<close>

text \<open>
  The block "Position elements" of \<open>plot\<close>. The module \<open>./constants\<close> is a
  parameter \<open>cn\<close>; so is the length of the formatted maximum,
  \<open>fmt(trace.max).length\<close>, which \<open>d3.format\<close> decides. The size is that of the
  trace's domain. A variable that the source declares without a value starts as
  \<open>NaN\<close>, which is what \<open>undefined\<close> is in arithmetic.
\<close>

record constants =
  innerRadius :: jsnum
  bulletHeight :: jsnum
  bulletPadding :: jsnum
  bulletTitleSize :: jsnum

record size =
  size_w :: jsnum
  size_h :: jsnum
  size_l :: jsnum
  size_r :: jsnum
  size_t :: jsnum
  size_b :: jsnum

record layout =
  titleX :: jsnum
  titleY :: jsnum
  titleFontSize :: jsnum
  numbersX :: jsnum
  numbersY :: jsnum
  numbersMaxWidth :: jsnum
  numbersMaxHeight :: jsnum
  bignumberFontSize :: jsnum
  deltaFontSize :: jsnum
  gaugePosition :: "jsnum \<times> jsnum"
  deltaDy :: "jsnum option"
  deltaX :: "jsnum option"

text \<open>The table \<open>position\<close>; a key it lacks reads as \<open>undefined\<close>.\<close>

definition position_of :: "string \<Rightarrow> jsnum" where
  "position_of a =
     (if a = ''left'' then Fin 0 else if a = ''center'' then Fin 0.5
      else if a = ''right'' then Fin 1 else NaN)"

definition gauge_radius :: "size \<Rightarrow> jsnum" where
  "gauge_radius sz =
     Math_min (Fin 0.85 * size_w sz / Fin 2) (size_h sz * Fin 0.65 - Fin 20)"

definition gauge_innerRadius :: "constants \<Rightarrow> size \<Rightarrow> jsnum" where
  "gauge_innerRadius cn sz = innerRadius cn * gauge_radius sz"

definition isWide :: "size \<Rightarrow> bool" where
  "isWide sz = (size_w sz / Fin 2 > size_h sz * Fin 0.65 - Fin 20)"

definition bullet_height :: "constants \<Rightarrow> size \<Rightarrow> jsnum" where
  "bullet_height cn sz = Math_min (bulletHeight cn) (size_h sz / Fin 2)"

definition centerX :: "size \<Rightarrow> jsnum" where
  "centerX sz = size_l sz + size_w sz / Fin 2"

definition layout_start :: "size \<Rightarrow> trace \<Rightarrow> layout" where
  "layout_start sz trace =
     \<lparr>titleX = size_l sz + size_w sz * position_of (title_align trace),
      titleY = NaN, titleFontSize = NaN, numbersX = NaN,
      numbersY = size_t sz + size_h sz / Fin 2,
      numbersMaxWidth = Fin 0.85 * size_w sz,
      numbersMaxHeight = size_h sz,
      bignumberFontSize = NaN, deltaFontSize = NaN,
      gaugePosition = (Fin 0, Fin 0),
      deltaDy = None, deltaX = Some (Fin 0)\<rparr>"

text \<open>The branch \<open>if(!hasGauge)\<close>.\<close>

definition layout_no_gauge :: "size \<Rightarrow> nat \<Rightarrow> trace \<Rightarrow> layout \<Rightarrow> layout" where
  "layout_no_gauge sz len trace lay =
     (let fs = Math_min (size_w sz / Fin (real len)) (size_h sz / Fin 3);
          ts = Fin 0.35 * fs
      in lay\<lparr>numbersX := size_l sz + position_of (number_align trace) * size_w sz,
             bignumberFontSize := fs,
             deltaFontSize := (if hasBigNumber trace then Fin 0.5 * fs else fs),
             titleFontSize := ts,
             titleY := size_t sz + Math_max (ts / Fin 2) (size_h sz / Fin 5)\<rparr>)"

text \<open>The branch \<open>if(isAngular)\<close>. \<open>Math.min\<close> of one argument is that argument.\<close>

definition layout_angular :: "constants \<Rightarrow> size \<Rightarrow> nat \<Rightarrow> trace \<Rightarrow> layout \<Rightarrow> layout" where
  "layout_angular cn sz len trace lay =
     (let ir = gauge_innerRadius cn sz;
          y0 = (if isWide sz then size_t sz + size_h sz - Fin 0.15 * size_h sz else numbersY lay);
          fs = Fin 2 * ir / Fin (real len);
          y1 = y0 - fs / Fin 2;
          ts = Fin 0.35 * fs
      in lay\<lparr>numbersX := centerX sz - Fin 0.85 * ir
                           + Fin 2 * Fin 0.85 * ir * position_of (number_align trace),
             numbersMaxWidth := Fin 2 * ir * Fin 0.85,
             numbersMaxHeight := ir * Fin 0.85,
             gaugePosition := (centerX sz, y0),
             bignumberFontSize := fs,
             numbersY := y1,
             deltaFontSize := Fin 0.35 * fs,
             titleFontSize := ts,
             titleY := (if isWide sz then size_t sz + Fin 0.25 / Fin 2 * size_h sz - ts / Fin 2
                        else (y1 - gauge_radius sz + size_t sz) / Fin 2)\<rparr>)"

text \<open>The branch \<open>if(isBullet)\<close>.\<close>

definition layout_bullet :: "constants \<Rightarrow> size \<Rightarrow> nat \<Rightarrow> trace \<Rightarrow> layout \<Rightarrow> layout" where
  "layout_bullet cn sz len trace lay =
     (let padding = bulletPadding cn;
          p = Fin 1 - bulletTitleSize cn + padding;
          fs = Math_min (Fin 0.2 * size_w sz / Fin (real len)) (bullet_height cn sz);
          y = size_t sz + size_h sz / Fin 2
      in lay\<lparr>numbersMaxWidth := (bulletTitleSize cn - padding) * size_w sz,
             bignumberFontSize := fs,
             numbersY := y,
             titleX := size_l sz
                         + (bulletTitleSize cn - padding) * size_w sz * position_of (title_align trace),
             numbersX := size_l sz
                           + (p + (Fin 1 - p) * position_of (number_align trace)) * size_w sz,
             deltaFontSize := Fin 0.5 * fs,
             titleFontSize := Fin 0.4 * fs,
             titleY := y\<rparr>)"

text \<open>The block \<open>if(hasDelta && hasBigNumber)\<close> that places the delta by the number.\<close>

definition layout_delta :: "trace \<Rightarrow> layout \<Rightarrow> layout" where
  "layout_delta trace lay =
     (if hasDelta trace \<and> hasBigNumber trace then
        (let pos = position (delta trace);
             l1 = (if pos = ''bottom''
                   then lay\<lparr>deltaDy := Some (bignumberFontSize lay / Fin 2 + deltaFontSize lay / Fin 2)\<rparr>
                   else lay);
             l2 = (if pos = ''top''
                   then l1\<lparr>deltaDy := Some (- (bignumberFontSize l1 / Fin 2 + deltaFontSize l1 / Fin 2)),
                           numbersY := numbersY l1 + deltaFontSize l1\<rparr>
                   else l1);
             l3 = (if pos = ''right'' then l2\<lparr>deltaX := None, deltaDy := None\<rparr> else l2)
         in if pos = ''left'' then l3\<lparr>deltaX := None, deltaDy := None\<rparr> else l3)
      else lay)"

definition position_elements :: "constants \<Rightarrow> size \<Rightarrow> nat \<Rightarrow> trace \<Rightarrow> layout" where
  "position_elements cn sz len trace =
     (let l0 = layout_start sz trace;
          l1 = (if \<not> hasGauge trace then layout_no_gauge sz len trace l0
                else (let a = (if isAngular trace then layout_angular cn sz len trace l0 else l0);
                          b = (if isBullet trace then layout_bullet cn sz len trace a else a)
                      in if \<not> hasBigNumber trace
                         then b\<lparr>deltaFontSize := Fin 0.75 * bignumberFontSize b\<rparr> else b))
      in layout_delta trace l1)"

section \<open>Fit to box\<close>

text \<open>
  \<open>fitTextInside\<close> takes the box that \<open>Drawing.bBox\<close> has measured in place of the
  element. The transform string that \<open>plot\<close> then sets on the numbers is a record: a
  translation, and a scale that is there only when the ratio is below one.
\<close>

record bbox =
  bbox_width :: jsnum
  bbox_height :: jsnum

definition fitTextInside :: "bbox \<Rightarrow> jsnum \<Rightarrow> jsnum \<Rightarrow> jsnum" where
  "fitTextInside textBB width height =
     (let ratio = Math_min (width / bbox_width textBB) (height / bbox_height textBB)
      in ratio)"

record transform =
  translate :: "jsnum \<times> jsnum"
  scale :: "jsnum option"

definition numbers_transform :: "layout \<Rightarrow> bbox \<Rightarrow> transform" where
  "numbers_transform lay textBB =
     (let scaleRatio = fitTextInside textBB (numbersMaxWidth lay) (numbersMaxHeight lay)
      in \<lparr>translate = (numbersX lay, numbersY lay),
          scale = (if scaleRatio < Fin 1 then Some scaleRatio else None)\<rparr>)"

text \<open>The factor by which an SVG transform list scales: one when it holds no scale.\<close>

definition scale_factor :: "transform \<Rightarrow> jsnum" where
  "scale_factor tf = (case scale tf of None \<Rightarrow> Fin 1 | Some k \<Rightarrow> k)"

section \<open>Scene composer: the gauge\<close>

text \<open>
  What an \<open>if\<close> makes of a number that may be \<open>undefined\<close>: zero, \<open>NaN\<close> and
  \<open>undefined\<close> are falsy.
\<close>

fun truthy :: "jsnum option \<Rightarrow> bool" where
  "truthy None = False"
| "truthy (Some NaN) = False"
| "truthy (Some (Fin x)) = (x \<noteq> 0)"
| "truthy (Some _) = True"

text \<open>An \<open>undefined\<close> that is read as a number.\<close>

fun to_number :: "jsnum option \<Rightarrow> jsnum" where
  "to_number None = NaN"
| "to_number (Some x) = x"

text \<open>
  The part that a drawn element plays in the gauge. The source has no such label: it
  is attached to each datum where \<open>plot\<close> builds it, to tell the elements apart.
\<close>

datatype role = Background | Step | Threshold | ValueShape | Outline

text \<open>A child of the gauge group: the class of its \<open>g\<close> element, its role, its datum.\<close>

datatype node =
  TargetArc role arc | FgArc | GaugeOutline arc
| TargetBullet role arc | FgBullet | ThresholdLine | BulletOutline arc

fun node_role :: "node \<Rightarrow> role" where
  "node_role (TargetArc r a) = r"
| "node_role FgArc = ValueShape"
| "node_role (GaugeOutline a) = Outline"
| "node_role (TargetBullet r a) = r"
| "node_role FgBullet = ValueShape"
| "node_role ThresholdLine = Threshold"
| "node_role (BulletOutline a) = Outline"

text \<open>The data of the nodes that draw a step, in the order of the nodes.\<close>

fun step_data :: "node list \<Rightarrow> arc list" where
  "step_data [] = []"
| "step_data (TargetArc Step a # ns) = a # step_data ns"
| "step_data (TargetBullet Step a # ns) = a # step_data ns"
| "step_data (n # ns) = step_data ns"

definition gaugeBg :: "trace \<Rightarrow> arc" where
  "gaugeBg trace =
     \<lparr>arc_range = (trace_min trace, trace_max trace), arc_color = bgcolor (gauge trace),
      arc_line_color = bordercolor (gauge trace), arc_line_width = Fin 0, arc_height = Fin 1\<rparr>"

definition gaugeOutline :: "trace \<Rightarrow> arc" where
  "gaugeOutline trace =
     \<lparr>arc_range = (trace_min trace, trace_max trace), arc_color = ''rgba(0, 0, 0, 0)'',
      arc_line_color = bordercolor (gauge trace), arc_line_width = borderwidth (gauge trace),
      arc_height = Fin 1\<rparr>"

definition thresholdArc :: "trace \<Rightarrow> arc" where
  "thresholdArc trace =
     (let th = threshold (gauge trace); v = to_number (threshold_value th)
      in \<lparr>arc_range = (v, v), arc_color = threshold_color th,
          arc_line_color = threshold_color th, arc_line_width = threshold_width th,
          arc_height = threshold_height th\<rparr>)"

text \<open>
  A data join on a group that holds no element of the class yet, followed by
  \<open>enter().append\<close>: one new child for each datum, after the children that are there,
  in the order of the data. This is the first draw of a trace; the order of the children
  is the order in which SVG paints them.
\<close>

definition enter_append :: "('a \<Rightarrow> node) \<Rightarrow> 'a list \<Rightarrow> node list \<Rightarrow> node list" where
  "enter_append mk data children = children @ map mk data"

text \<open>
  The children of \<open>g.gauge\<close>, which exists when the gauge is angular: the joins
  \<open>g.targetArc\<close>, \<open>g.fgArc\<close> and \<open>g.gaugeOutline\<close> in the order of the source.
\<close>

definition angular_children :: "trace \<Rightarrow> node list" where
  "angular_children trace =
     (if isAngular trace then
        (let v = threshold_value (threshold (gauge trace));
             arcs = (Background, gaugeBg trace) # map (Pair Step) (steps (gauge trace));
             arcs = (if truthy v then arcs @ [(Threshold, thresholdArc trace)] else arcs);
             g = enter_append (\<lambda>(r, a). TargetArc r a) arcs [];
             g = enter_append (\<lambda>_. FgArc) [()] g
         in enter_append GaugeOutline [gaugeOutline trace] g)
      else [])"

text \<open>
  The children of \<open>g.bullet\<close>, which exists when the gauge is a bullet: the joins
  \<open>g.targetBullet\<close>, \<open>g.fgBullet\<close>, \<open>g.threshold\<close> and \<open>g.bulletOutline\<close> in the
  order of the source. The data of \<open>g.threshold\<close> is \<open>cd\<close> filtered by the threshold
  value, and \<open>cd\<close> holds one item.
\<close>

definition bullet_children :: "trace \<Rightarrow> node list" where
  "bullet_children trace =
     (if isBullet trace then
        (let g = enter_append (\<lambda>(r, a). TargetBullet r a)
                   ((Background, gaugeBg trace) # map (Pair Step) (steps (gauge trace))) [];
             g = enter_append (\<lambda>_. FgBullet) [()] g;
             data = filter (\<lambda>_. truthy (threshold_value (threshold (gauge trace)))) [()];
             g = enter_append (\<lambda>_. ThresholdLine) data g
         in enter_append BulletOutline [gaugeOutline trace] g)
      else [])"

text \<open>
  The order that the specification gives for every gauge: background, steps, threshold,
  value shape, outline.
\<close>

fun rank :: "role \<Rightarrow> nat" where
  "rank Background = 0"
| "rank Step = 1"
| "rank Threshold = 2"
| "rank ValueShape = 3"
| "rank Outline = 4"

definition specified_z_order :: "node list \<Rightarrow> bool" where
  "specified_z_order ns = sorted (map (rank \<circ> node_role) ns)"

section \<open>Transition orchestrator\<close>

text \<open>
  The item \<open>cd[0]\<close> of the calculated data, which is the datum of the number, delta and
  value elements. The module that computes it is not modelled: its fields are inputs.
\<close>

record calcdatum =
  cd_y :: jsnum
  cd_lastY :: jsnum
  cd_delta :: jsnum
  cd_relativeDelta :: jsnum

record transitionOpts =
  duration :: "jsnum option"

definition hasTransition :: "transitionOpts option \<Rightarrow> bool" where
  "hasTransition transitionOpts =
     (case transitionOpts of None \<Rightarrow> False
      | Some t \<Rightarrow> (case duration t of None \<Rightarrow> False | Some d \<Rightarrow> d > Fin 0))"

definition deltaValue :: "trace \<Rightarrow> calcdatum \<Rightarrow> jsnum" where
  "deltaValue trace d = (if showpercentage (delta trace) then cd_relativeDelta d else cd_delta d)"

text \<open>The statement \<open>if(!trace._deltaLastValue) trace._deltaLastValue = 0\<close>.\<close>

definition init_deltaLastValue :: "trace \<Rightarrow> trace" where
  "init_deltaLastValue trace =
     (if \<not> truthy (deltaLastValue trace) then trace\<lparr>deltaLastValue := Some (Fin 0)\<rparr> else trace)"

text \<open>
  The elements that \<open>plot\<close> animates: the number text, the delta text, the path of the
  value arc and the rectangle of the value bar.
\<close>

datatype element = NumberText | DeltaText | FgArcPath | FgBulletRect

text \<open>
  A transition as \<open>plot\<close> configures it: the two ends of its interpolator, and the
  \<open>onComplete\<close> that its handlers have closed over (\<open>None\<close> when that variable is
  \<open>undefined\<close>). Callbacks are numbered in the order in which
  \<open>makeOnCompleteCallback\<close> hands them out.
\<close>

record transition =
  t_from :: jsnum
  t_to :: jsnum
  t_onComplete :: "nat option"

text \<open>
  The state across the renders of one trace: the trace with its \<open>_deltaLastValue\<close>,
  the datum that the last render has bound to the numbers text with \<open>data(cd)\<close> and
  that \<open>numbers.select\<close> has handed on to the number and the delta (\<open>None\<close>
  before the first render), the value that each element shows (the number given to the
  formatter, the end angle,
  the width), the running transition of each element, the number of callbacks made, and
  the log of the calls of \<open>onComplete\<close>. The log names the element whose handler made
  the call, and \<open>started\<close> lists the transitions that were started with a callback;
  the source keeps neither, they serve to count.
\<close>

record world =
  w_trace :: trace
  bound :: "calcdatum option"
  shown :: "element \<Rightarrow> jsnum option"
  running :: "element \<Rightarrow> transition option"
  made :: nat
  calls :: "(nat \<times> element) list"
  started :: "(nat \<times> element) list"

definition initial_world :: "trace \<Rightarrow> world" where
  "initial_world trace =
     \<lparr>w_trace = trace, bound = None, shown = (\<lambda>_. None), running = (\<lambda>_. None), made = 0, calls = [],
      started = []\<rparr>"

subsection \<open>The handlers of the source\<close>

text \<open>The expression \<open>onComplete && onComplete()\<close> in a handler of element \<open>el\<close>.\<close>

definition call_onComplete :: "nat option \<Rightarrow> element \<Rightarrow> world \<Rightarrow> world" where
  "call_onComplete onComplete el w =
     (case onComplete of None \<Rightarrow> w | Some k \<Rightarrow> w\<lparr>calls := calls w @ [(k, el)]\<rparr>)"

text \<open>
  The handler of \<open>end\<close>, called with the datum \<open>d\<close> that the element has when the
  event fires. That of the delta stores \<open>deltaValue(d)\<close> in
  \<open>trace._deltaLastValue\<close> before it calls \<open>onComplete\<close>; with no datum the read
  of \<open>d.delta\<close> throws and the handler does neither. The other handlers take no
  argument.
\<close>

definition on_end :: "element \<Rightarrow> calcdatum option \<Rightarrow> transition \<Rightarrow> world \<Rightarrow> world" where
  "on_end el d t w =
     (if el = DeltaText
      then (case d of
              None \<Rightarrow> w
            | Some d' \<Rightarrow>
                call_onComplete (t_onComplete t) el
                  (w\<lparr>w_trace := (w_trace w)\<lparr>deltaLastValue :=
                                     Some (deltaValue (w_trace w) d')\<rparr>\<rparr>))
      else call_onComplete (t_onComplete t) el w)"

text \<open>The handler of \<open>interrupt\<close>, the same for every element.\<close>

definition on_interrupt :: "element \<Rightarrow> transition \<Rightarrow> world \<Rightarrow> world" where
  "on_interrupt el t w = call_onComplete (t_onComplete t) el w"

subsection \<open>The transitions of d3\<close>

text \<open>
  Modelled from the specification: the transition machinery of d3, which is a library
  and not under \<open>src/\<close>. An element has at most one running transition. Starting a
  transition on an element interrupts the one that runs there, which calls its
  \<open>interrupt\<close> handler before the new transition takes its starting value; a frame
  applies the interpolator; the last frame is followed by the \<open>end\<close> handler, which
  gets the datum that the element has at that moment. A transition that has ended or
  was interrupted is gone and gets no further event. Setting a text or an attribute
  without a transition interrupts nothing.
\<close>

definition interpolateNumber :: "jsnum \<Rightarrow> jsnum \<Rightarrow> jsnum \<Rightarrow> jsnum" where
  "interpolateNumber a b t = a * (Fin 1 - t) + b * t"

definition supersede :: "element \<Rightarrow> world \<Rightarrow> world" where
  "supersede el w = (case running w el of None \<Rightarrow> w | Some old \<Rightarrow> on_interrupt el old w)"

definition start_transition :: "element \<Rightarrow> (world \<Rightarrow> transition) \<Rightarrow> world \<Rightarrow> world" where
  "start_transition el tween w =
     (let w1 = supersede el w;
          t = tween w1
      in w1\<lparr>running := (running w1)(el \<mapsto> t),
             started := (case t_onComplete t of None \<Rightarrow> started w1
                         | Some k \<Rightarrow> started w1 @ [(k, el)])\<rparr>)"

definition frame :: "element \<Rightarrow> jsnum \<Rightarrow> world \<Rightarrow> world" where
  "frame el time w =
     (case running w el of None \<Rightarrow> w
      | Some t \<Rightarrow> w\<lparr>shown := (shown w)(el \<mapsto> interpolateNumber (t_from t) (t_to t) time)\<rparr>)"

definition finish :: "element \<Rightarrow> world \<Rightarrow> world" where
  "finish el w =
     (case running w el of None \<Rightarrow> w
      | Some t \<Rightarrow>
          on_end el (bound w) t ((frame el (Fin 1) w)\<lparr>running := (running w)(el := None)\<rparr>))"

definition interrupt :: "element \<Rightarrow> world \<Rightarrow> world" where
  "interrupt el w =
     (case running w el of None \<Rightarrow> w
      | Some t \<Rightarrow> on_interrupt el t (w\<lparr>running := (running w)(el := None)\<rparr>))"

subsection \<open>The render of a trace\<close>

text \<open>
  The pattern \<open>if(hasTransition) { sel.transition() ... } else { sel.text(...) }\<close> on a
  selection that holds the element when \<open>present\<close> and is empty otherwise.
\<close>

definition animate ::
  "element \<Rightarrow> bool \<Rightarrow> bool \<Rightarrow> (world \<Rightarrow> transition) \<Rightarrow> jsnum \<Rightarrow> world \<Rightarrow> world" where
  "animate el present has tween final w =
     (if \<not> present then w
      else if has then start_transition el tween w
      else w\<lparr>shown := (shown w)(el \<mapsto> final)\<rparr>)"

text \<open>
  The function \<open>plot\<close> on one trace, as far as the animated elements go. Every
  render binds \<open>cd\<close> to the numbers text and hands the datum on to the number and
  the delta before it sets or animates them.
  \<open>makeOnCompleteCallback\<close> is given or not (\<open>given\<close>); \<open>c2p\<close> is the coordinate
  transform of the bullet axis, which the axis subsystem supplies.
\<close>

definition plot_trace ::
  "(jsnum \<Rightarrow> jsnum) \<Rightarrow> calcdatum \<Rightarrow> transitionOpts option \<Rightarrow> bool \<Rightarrow> world \<Rightarrow> world" where
  "plot_trace c2p cd0 transitionOpts given w0 =
     (let has = hasTransition transitionOpts;
          onComplete = (if has \<and> given then Some (made w0) else None);
          w1 = (if has \<and> given then w0\<lparr>made := Suc (made w0)\<rparr> else w0);
          w2 = w1\<lparr>w_trace := init_deltaLastValue (w_trace w1), bound := Some cd0\<rparr>;
          trace = w_trace w2;
          w3 = animate NumberText (hasBigNumber trace) has
                 (\<lambda>w. \<lparr>t_from = cd_lastY cd0, t_to = cd_y cd0,
                       t_onComplete = onComplete\<rparr>)
                 (cd_y cd0) w2;
          w4 = animate DeltaText (hasDelta trace) has
                 (\<lambda>w. \<lparr>t_from = to_number (deltaLastValue (w_trace w)),
                       t_to = deltaValue trace cd0,
                       t_onComplete = onComplete\<rparr>)
                 (deltaValue trace cd0) w3;
          w5 = animate FgArcPath (isAngular trace) has
                 (\<lambda>w. \<lparr>t_from = valueToAngle trace (cd_lastY cd0),
                       t_to = valueToAngle trace (cd_y cd0),
                       t_onComplete = onComplete\<rparr>)
                 (valueToAngle trace (cd_y cd0)) w4;
          width = Math_max (Fin 0) (c2p (Math_min (trace_max trace) (cd_y cd0)))
      in animate FgBulletRect (isBullet trace) has
           (\<lambda>w. \<lparr>t_from = to_number (shown w FgBulletRect), t_to = width,
                 t_onComplete = onComplete\<rparr>)
           width w5)"

subsection \<open>Runs\<close>

datatype event =
  Render calcdatum "transitionOpts option" bool
| Frame element jsnum
| End element
| Interrupt element

fun step :: "(jsnum \<Rightarrow> jsnum) \<Rightarrow> event \<Rightarrow> world \<Rightarrow> world" where
  "step c2p (Render cd0 transitionOpts given) w = plot_trace c2p cd0 transitionOpts given w"
| "step c2p (Frame el time) w = frame el time w"
| "step c2p (End el) w = finish el w"
| "step c2p (Interrupt el) w = interrupt el w"

fun run :: "(jsnum \<Rightarrow> jsnum) \<Rightarrow> event list \<Rightarrow> world \<Rightarrow> world" where
  "run c2p [] w = w"
| "run c2p (e # es) w = run c2p es (step c2p e w)"

text \<open>Whether the selection of an element holds it, so that \<open>plot\<close> animates it.\<close>

fun in_selection :: "trace \<Rightarrow> element \<Rightarrow> bool" where
  "in_selection trace NumberText = hasBigNumber trace"
| "in_selection trace DeltaText = hasDelta trace"
| "in_selection trace FgArcPath = isAngular trace"
| "in_selection trace FgBulletRect = isBullet trace"

text \<open>Whether the transition of element \<open>el\<close> that holds callback \<open>k\<close> is running.\<close>

definition is_running :: "world \<Rightarrow> nat \<Rightarrow> element \<Rightarrow> bool" where
  "is_running w k el =
     (case running w el of None \<Rightarrow> False | Some t \<Rightarrow> t_onComplete t = Some k)"

text \<open>The value that the last completed delta transition has left on the trace.\<close>

definition committed :: "world \<Rightarrow> jsnum option" where
  "committed w = deltaLastValue (w_trace w)"

text \<open>
  The invariant of the runs: no call is logged twice, every call and every running
  transition with a callback belongs to a started transition, the callbacks of the
  started transitions have been made, a started transition has made its call exactly
  when it runs no more, and a delta that is in transition has a datum.
\<close>

definition consistent :: "world \<Rightarrow> bool" where
  "consistent w =
     (distinct (calls w)
      \<and> set (calls w) \<subseteq> set (started w)
      \<and> (\<forall>k el. is_running w k el \<longrightarrow> (k, el) \<in> set (started w))
      \<and> (\<forall>p \<in> set (started w). fst p < made w)
      \<and> (\<forall>p \<in> set (started w). (p \<in> set (calls w)) = (\<not> is_running w (fst p) (snd p)))
      \<and> (running w DeltaText \<noteq> None \<longrightarrow> bound w \<noteq> None))"

section \<open>Axis adapter\<close>

text \<open>
  \<open>mockAxis\<close> builds objects that share parts with its arguments, so its objects live
  in a heap: a list of objects, where the address of an object is its index. An object
  is the list of its properties. A value is a primitive or the address of an object.
\<close>

datatype jsval = Undefined | Num jsnum | Str string | Bool bool | Ref nat

type_synonym object = "(string \<times> jsval) list"

type_synonym heap = "object list"

datatype error = TypeError

definition is_object :: "heap \<Rightarrow> jsval \<Rightarrow> bool" where
  "is_object h v = (case v of Ref a \<Rightarrow> a < length h | _ \<Rightarrow> False)"

text \<open>
  The read \<open>v.k\<close>: a property that the object lacks, and any property of a primitive,
  is \<open>undefined\<close>. The read of a property of \<open>undefined\<close> throws; the callers below
  test for it first.
\<close>

definition get_prop :: "heap \<Rightarrow> jsval \<Rightarrow> string \<Rightarrow> jsval" where
  "get_prop h v k =
     (case v of
        Ref a \<Rightarrow> (if a < length h
                  then (case map_of (h ! a) k of None \<Rightarrow> Undefined | Some x \<Rightarrow> x)
                  else Undefined)
      | _ \<Rightarrow> Undefined)"

fun put :: "string \<Rightarrow> jsval \<Rightarrow> object \<Rightarrow> object" where
  "put k v [] = [(k, v)]"
| "put k v (p # ps) = (if fst p = k then (k, v) # ps else p # put k v ps)"

text \<open>The write \<open>v.k = x\<close> to an object of the heap; on anything else it writes nothing.\<close>

definition set_prop :: "heap \<Rightarrow> jsval \<Rightarrow> string \<Rightarrow> jsval \<Rightarrow> heap" where
  "set_prop h v k x =
     (case v of
        Ref a \<Rightarrow> (if a < length h then h[a := put k x (h ! a)] else h)
      | _ \<Rightarrow> h)"

text \<open>An object literal: a new object at the end of the heap.\<close>

definition new_object :: "object \<Rightarrow> heap \<Rightarrow> jsval \<times> heap" where
  "new_object ob h = (Ref (length h), h @ [ob])"

text \<open>
  What \<open>mockAxis\<close> takes from outside \<open>src/\<close>: the attribute table
  \<open>axisLayoutAttrs\<close>, as the test that a value is valid for an attribute; the
  attributes that each of the two default handlers coerces, with their defaults; and the
  conversion of a value to a string in \<open>'x' + opts._id\<close>.
\<close>

record axis_env =
  valid :: "string \<Rightarrow> jsval \<Rightarrow> bool"
  axis_attrs :: "(string \<times> jsval) list"
  position_attrs :: "(string \<times> jsval) list"
  to_string :: "jsval \<Rightarrow> string"

text \<open>
  Modelled from the specification: \<open>Lib.coerce\<close>, which is not under \<open>src/\<close>. It
  reads the attribute from the input container and writes it, or the default when the
  value is not valid, to the output container; \<open>supplyDefaults\<close> in
  \<open>defaults.js\<close> relies on this when it reads \<open>traceOut.value\<close> after
  \<open>coerce('value')\<close>.
\<close>

definition Lib_coerce ::
  "axis_env \<Rightarrow> jsval \<Rightarrow> jsval \<Rightarrow> string \<Rightarrow> jsval \<Rightarrow> heap \<Rightarrow> heap" where
  "Lib_coerce env containerIn containerOut attr dflt h =
     (let v = get_prop h containerIn attr
      in set_prop h containerOut attr (if valid env attr v then v else dflt))"

text \<open>
  Modelled from the specification: \<open>handleAxisDefaults\<close> and
  \<open>handleAxisPositionDefaults\<close>, which are not under \<open>src/\<close>. Each fills the output
  axis through the \<open>coerce\<close> that \<open>mockAxis\<close> hands it, one attribute after the
  other.
\<close>

definition handleAxisDefaults ::
  "axis_env \<Rightarrow> jsval \<Rightarrow> jsval \<Rightarrow> (string \<Rightarrow> jsval \<Rightarrow> heap \<Rightarrow> heap) \<Rightarrow> jsval \<Rightarrow> jsval
     \<Rightarrow> heap \<Rightarrow> heap" where
  "handleAxisDefaults env containerIn containerOut coerce options layoutOut h =
     foldl (\<lambda>h' (attr, dflt). coerce attr dflt h') h (axis_attrs env)"

definition handleAxisPositionDefaults ::
  "axis_env \<Rightarrow> jsval \<Rightarrow> jsval \<Rightarrow> (string \<Rightarrow> jsval \<Rightarrow> heap \<Rightarrow> heap) \<Rightarrow> jsval
     \<Rightarrow> heap \<Rightarrow> heap" where
  "handleAxisPositionDefaults env containerIn containerOut coerce options h =
     foldl (\<lambda>h' (attr, dflt). coerce attr dflt h') h (position_attrs env)"

text \<open>The properties that the literal \<open>axisIn\<close> copies from \<open>opts\<close>, in its order.\<close>

definition copied_from_opts :: "string list" where
  "copied_from_opts =
     [''tickmode'', ''nticks'', ''tick0'', ''dtick'', ''tickvals'', ''ticktext'', ''ticklen'',
      ''tickwidth'', ''tickcolor'', ''showticklabels'', ''tickfont'', ''tickangle'',
      ''tickformat'', ''exponentformat'', ''separatethousands'', ''showexponent'',
      ''showtickprefix'', ''tickprefix'', ''showticksuffix'', ''ticksuffix'', ''title'']"

text \<open>
  \<open>mockAxis\<close>. It returns the heap with the address of \<open>axisOut\<close>, or with the
  \<open>TypeError\<close> of a read from \<open>undefined\<close> (\<open>gd\<close>, \<open>opts\<close> or
  \<open>gd._fullLayout\<close>).
\<close>

definition mockAxis :: "axis_env \<Rightarrow> jsval \<Rightarrow> jsval \<Rightarrow> jsval \<Rightarrow> heap \<Rightarrow> heap \<times> (error + jsval)" where
  "mockAxis env gd opts zrange h =
     (if gd = Undefined then (h, Inl TypeError)
      else
        (let fullLayout = get_prop h gd ''_fullLayout''
         in if opts = Undefined then (h, Inl TypeError)
            else
              (let (axisIn, h1) =
                     new_object
                       ([(''type'', Str ''linear''), (''ticks'', Str ''outside''), (''range'', zrange)]
                        @ map (\<lambda>k. (k, get_prop h opts k)) copied_from_opts
                        @ [(''showline'', Bool True), (''anchor'', Str ''free''),
                           (''position'', Num (Fin 1))]) h;
                   (axisOut, h2) =
                     new_object
                       [(''type'', Str ''linear''),
                        (''_id'', Str (''x'' @ to_string env (get_prop h1 opts ''_id'')))] h1
               in if fullLayout = Undefined then (h2, Inl TypeError)
                  else
                    (let (axisOptions, h3) =
                           new_object
                             [(''letter'', Str ''x''), (''font'', get_prop h2 fullLayout ''font''),
                              (''noHover'', Bool True), (''noTickson'', Bool True)] h2;
                         coerce = (\<lambda>attr dflt. Lib_coerce env axisIn axisOut attr dflt);
                         h4 = handleAxisDefaults env axisIn axisOut coerce axisOptions fullLayout h3;
                         h5 = handleAxisPositionDefaults env axisIn axisOut coerce axisOptions h4
                     in (h5, Inr axisOut)))))"

section \<open>Example traces\<close>

definition example_gauge :: gauge where
  "example_gauge =
     \<lparr>shape = angular, bgcolor = ''white'', bordercolor = ''black'', borderwidth = Fin 1,
      steps = [\<lparr>arc_range = (Fin 0, Fin 4), arc_color = ''green'', arc_line_color = ''green'',
                 arc_line_width = Fin 0, arc_height = Fin 1\<rparr>,
               \<lparr>arc_range = (Fin 4, Fin 10), arc_color = ''red'', arc_line_color = ''red'',
                 arc_line_width = Fin 0, arc_height = Fin 1\<rparr>],
      threshold = \<lparr>threshold_value = Some (Fin 8), threshold_color = ''blue'',
                   threshold_width = Fin 2, threshold_height = Fin 1\<rparr>,
      value_height = Fin 1\<rparr>"

definition example_trace :: trace where
  "example_trace =
     \<lparr>mode = ''bignumber+delta+gauge'', trace_min = Fin 0, trace_max = Fin 10,
      title_text = ''Speed'', title_align = ''center'', number_align = ''center'',
      delta = \<lparr>showpercentage = False, position = ''bottom''\<rparr>,
      gauge = example_gauge, deltaLastValue = None\<rparr>"

text \<open>A trace whose range has collapsed: \<open>min = max = 5\<close>.\<close>

definition degenerate_trace :: trace where
  "degenerate_trace = example_trace\<lparr>trace_min := Fin 5, trace_max := Fin 5\<rparr>"

definition example_cn :: constants where
  "example_cn = \<lparr>innerRadius = Fin 0.75, bulletHeight = Fin 35, bulletPadding = Fin 0.025,
                  bulletTitleSize = Fin 0.25\<rparr>"

definition example_size :: size where
  "example_size = \<lparr>size_w = Fin 400, size_h = Fin 300, size_l = Fin 80, size_r = Fin 80,
                    size_t = Fin 100, size_b = Fin 80\<rparr>"

text \<open>The example trace without its big number.\<close>

definition delta_gauge_trace :: trace where
  "delta_gauge_trace = example_trace\<lparr>mode := ''delta+gauge''\<rparr>"

definition example_layout :: layout where
  "example_layout = position_elements example_cn example_size 2 example_trace"

definition example_bbox :: bbox where
  "example_bbox = \<lparr>bbox_width = Fin 300, bbox_height = Fin 90\<rparr>"

text \<open>The example trace with a bullet gauge.\<close>

definition bullet_trace :: trace where
  "bullet_trace = example_trace\<lparr>gauge := example_gauge\<lparr>shape := bullet\<rparr>\<rparr>"

text \<open>The example trace with its range around zero and its threshold at zero.\<close>

definition zero_threshold_trace :: trace where
  "zero_threshold_trace =
     example_trace\<lparr>trace_min := Fin (- 5), trace_max := Fin 5,
       gauge := example_gauge\<lparr>threshold := threshold example_gauge\<lparr>threshold_value := Some (Fin 0)\<rparr>\<rparr>\<rparr>"

text \<open>Renders of the example trace: a transition of 500 ms, and a duration of zero.\<close>

definition example_opts :: "transitionOpts option" where
  "example_opts = Some \<lparr>duration = Some (Fin 500)\<rparr>"

definition zero_opts :: "transitionOpts option" where
  "zero_opts = Some \<lparr>duration = Some (Fin 0)\<rparr>"

definition cd_first :: calcdatum where
  "cd_first = \<lparr>cd_y = Fin 100, cd_lastY = Fin 0, cd_delta = Fin 20, cd_relativeDelta = Fin 0.25\<rparr>"

definition cd_second :: calcdatum where
  "cd_second = \<lparr>cd_y = Fin 120, cd_lastY = Fin 100, cd_delta = Fin 40, cd_relativeDelta = Fin 0.5\<rparr>"

definition example_c2p :: "jsnum \<Rightarrow> jsnum" where
  "example_c2p x = x * Fin 3"

definition world_animating :: world where
  "world_animating = plot_trace example_c2p cd_first example_opts True (initial_world example_trace)"

definition world_midflight :: world where
  "world_midflight = run example_c2p [Frame DeltaText (Fin 0.5)] world_animating"

text \<open>
  A heap with a graph div, its full layout and font, and the axis options of a gauge
  with an array of tick values; and an environment for \<open>mockAxis\<close>.
\<close>

definition example_heap :: heap where
  "example_heap =
     [[(''_fullLayout'', Ref 1)],
      [(''font'', Ref 2)],
      [(''family'', Str ''Arial''), (''size'', Num (Fin 12))],
      [(''tickmode'', Str ''array''), (''tickvals'', Ref 4), (''ticklen'', Num (Fin 5)),
       (''_id'', Str ''gauge'')],
      [(''0'', Num (Fin 0)), (''1'', Num (Fin 50)), (''length'', Num (Fin 2))]]"

definition example_env :: axis_env where
  "example_env =
     \<lparr>valid = (\<lambda>attr v. v \<noteq> Undefined),
      axis_attrs = [(''visible'', Bool True), (''range'', Undefined), (''tickmode'', Str ''auto''),
                    (''tickvals'', Undefined), (''ticklen'', Num (Fin 5))],
      position_attrs = [(''anchor'', Str ''free''), (''position'', Num (Fin 0))],
      to_string = (\<lambda>v. case v of Str s \<Rightarrow> s | _ \<Rightarrow> ''undefined'')\<rparr>"

section \<open>Properties of the value mapper\<close>

lemma theta_eq: "theta = Fin (pi / 2)"
  by (simp add: theta_def Math_PI_def)

lemma angle_below: "(r * pi - pi / 2 < - (pi / 2)) = (r < 0)"
proof -
  have "(r * pi - pi / 2 < - (pi / 2)) = (r * pi < 0 * pi)" by simp
  also have "\<dots> = (r < 0)" using pi_gt_zero by (simp only: mult_less_cancel_right_pos)
  finally show ?thesis .
qed

lemma angle_above: "(pi / 2 < r * pi - pi / 2) = (1 < r)"
proof -
  have "(pi / 2 < r * pi - pi / 2) = (1 * pi < r * pi)" by (simp add: field_simps)
  also have "\<dots> = (1 < r)" using pi_gt_zero by (simp only: mult_less_cancel_right_pos)
  finally show ?thesis .
qed

lemma valueToAngle_ratio:
  assumes "(v - trace_min tr) / (trace_max tr - trace_min tr) = Fin r"
  shows "valueToAngle tr v = Fin (clamped r)"
  unfolding valueToAngle_def assms clamped_def
  by (simp add: theta_eq Math_PI_def Let_def angle_below angle_above)

lemma clamped_mono: "r \<le> s \<Longrightarrow> clamped r \<le> clamped s"
  using pi_gt_zero by (auto simp add: clamped_def not_less mult_le_0_iff intro: mult_right_mono)

lemma clamped_bounds: "- (pi / 2) \<le> clamped r \<and> clamped r \<le> pi / 2"
  using angle_below [of r] angle_above [of r] pi_gt_zero by (auto simp add: clamped_def)

lemma ratio_fin:
  assumes "trace_min tr = Fin lo" and "trace_max tr = Fin hi" and "lo < hi"
  shows "(Fin v - trace_min tr) / (trace_max tr - trace_min tr) = Fin ((v - lo) / (hi - lo))"
  using assms by simp

lemma ratio_sign:
  fixes lo hi v :: real
  assumes "lo < hi"
  shows "((v - lo) / (hi - lo) < 0) = (v < lo)" and "(1 < (v - lo) / (hi - lo)) = (hi < v)"
  using assms by (simp_all add: field_simps)

text \<open>
  C1. On a trace with finite \<open>min < max\<close>, \<open>valueToAngle\<close> maps every finite value
  \<open>v\<close> to an angle \<open>a\<close> in \<open>[-\<pi>/2, \<pi>/2]\<close>: inside the range
  \<open>a = (v - min) / (max - min) \<cdot> \<pi> - \<pi>/2\<close>, below the range \<open>a = -\<pi>/2\<close>,
  above it \<open>a = \<pi>/2\<close>; and the angle of a greater value \<open>w\<close> is not smaller.
\<close>

theorem valueToAngle_clamped_half_circle:
  assumes "trace_min tr = Fin lo" and "trace_max tr = Fin hi" and "lo < hi" and "v \<le> w"
  shows "\<exists>a b. valueToAngle tr (Fin v) = Fin a \<and> valueToAngle tr (Fin w) = Fin b
           \<and> - (pi / 2) \<le> a \<and> a \<le> pi / 2 \<and> a \<le> b
           \<and> a = (if v < lo then - (pi / 2) else if hi < v then pi / 2
                   else (v - lo) / (hi - lo) * pi - pi / 2)"
proof -
  let ?r = "(v - lo) / (hi - lo)" and ?s = "(w - lo) / (hi - lo)"
  have a: "valueToAngle tr (Fin v) = Fin (clamped ?r)"
    by (rule valueToAngle_ratio [OF ratio_fin [OF assms(1-3)]])
  have b: "valueToAngle tr (Fin w) = Fin (clamped ?s)"
    by (rule valueToAngle_ratio [OF ratio_fin [OF assms(1-3)]])
  have "?r \<le> ?s" using assms(3,4) by (simp add: divide_right_mono)
  then have m: "clamped ?r \<le> clamped ?s" by (rule clamped_mono)
  have f: "clamped ?r = (if v < lo then - (pi / 2) else if hi < v then pi / 2
                   else (v - lo) / (hi - lo) * pi - pi / 2)"
    unfolding clamped_def ratio_sign [OF assms(3)] ..
  from a b m f clamped_bounds [of ?r] show ?thesis by auto
qed

theorem valueToAngle_clamped_half_circle_witness:
  "\<exists>a b. valueToAngle example_trace (Fin 5) = Fin a \<and> valueToAngle example_trace (Fin 12) = Fin b
     \<and> - (pi / 2) \<le> a \<and> a \<le> pi / 2 \<and> a \<le> b \<and> a = 0"
  using valueToAngle_clamped_half_circle [of example_trace 0 10 5 12]
  by (simp add: example_trace_def)

text \<open>
  C4 (as the code has it). \<open>valueToAngle\<close> has no case for a collapsed range. With
  finite \<open>min = max\<close> the quotient is a division by zero: a value equal to \<open>min\<close>
  gives \<open>NaN\<close>, a greater one the angle \<open>\<pi>/2\<close>, a smaller one \<open>-\<pi>/2\<close>.
\<close>

theorem valueToAngle_degenerate_range:
  assumes "trace_min tr = Fin m" and "trace_max tr = Fin m"
  shows "valueToAngle tr (Fin v) =
           (if v = m then NaN else if m < v then Fin (pi / 2) else Fin (- (pi / 2)))"
  using assms pi_gt_zero
  by (simp add: valueToAngle_def theta_eq Math_PI_def Let_def signed_inf_def)

theorem valueToAngle_degenerate_range_witness:
  "valueToAngle degenerate_trace (Fin 7) = Fin (pi / 2)"
  using valueToAngle_degenerate_range [of degenerate_trace 5 7]
  by (simp add: degenerate_trace_def)

theorem valueToAngle_degenerate_counterexample:
  "valueToAngle degenerate_trace (Fin 5) = NaN
   \<and> valueToAngle degenerate_trace (Fin 7) = Fin (pi / 2)
   \<and> valueToAngle degenerate_trace (Fin 3) = Fin (- (pi / 2))
   \<and> Fin (pi / 2) \<noteq> Fin (- (pi / 2))"
  using pi_gt_zero
  by (simp add: valueToAngle_def degenerate_trace_def theta_eq Math_PI_def Let_def signed_inf_def)

section \<open>Properties of the layout planner\<close>

lemma layout_delta_fonts:
  "deltaFontSize (layout_delta tr lay) = deltaFontSize lay"
  "bignumberFontSize (layout_delta tr lay) = bignumberFontSize lay"
  by (simp_all add: layout_delta_def Let_def)

lemma not_bullet_angular: "hasGauge tr \<Longrightarrow> \<not> isBullet tr \<Longrightarrow> isAngular tr"
  by (cases "shape (gauge tr)") (simp_all add: isAngular_def isBullet_def)

lemma bullet_not_angular: "isBullet tr \<Longrightarrow> \<not> isAngular tr"
  by (simp add: isAngular_def isBullet_def)

lemma example_trace_flags:
  "hasBigNumber example_trace" "hasDelta example_trace" "hasGauge example_trace"
  "isAngular example_trace" "\<not> isBullet example_trace"
  by (simp_all add: hasBigNumber_def hasDelta_def hasGauge_def isAngular_def isBullet_def
      example_trace_def example_gauge_def)

lemma delta_gauge_trace_flags:
  "\<not> hasBigNumber delta_gauge_trace" "hasDelta delta_gauge_trace" "hasGauge delta_gauge_trace"
  "isAngular delta_gauge_trace" "\<not> isBullet delta_gauge_trace"
  by (simp_all add: hasBigNumber_def hasDelta_def hasGauge_def isAngular_def isBullet_def
      delta_gauge_trace_def example_trace_def example_gauge_def)

text \<open>
  C8 (as the code has it). The delta font size is a fixed fraction of the number font
  size, and the fraction depends on the gauge as well: without a gauge it is 0.5 when a
  big number is shown and 1 otherwise; with a gauge and no big number it is 0.75; with a
  big number it is 0.5 on a bullet gauge and 0.35 on an angular one.
\<close>

theorem deltaFontSize_fraction:
  "deltaFontSize (position_elements cn sz len tr) =
     (let B = bignumberFontSize (position_elements cn sz len tr)
      in if \<not> hasGauge tr then (if hasBigNumber tr then Fin 0.5 * B else B)
         else if \<not> hasBigNumber tr then Fin 0.75 * B
         else if isBullet tr then Fin 0.5 * B
         else Fin 0.35 * B)"
proof (cases "hasGauge tr")
  case False
  then show ?thesis
    by (simp add: position_elements_def layout_delta_fonts layout_no_gauge_def Let_def
             del: times_jsnum_def)
next
  case g: True
  show ?thesis
  proof (cases "isBullet tr")
    case True
    with g bullet_not_angular [OF True] show ?thesis
      by (simp add: position_elements_def layout_delta_fonts layout_bullet_def Let_def
               del: times_jsnum_def)
  next
    case False
    with g not_bullet_angular [OF g False] show ?thesis
      by (simp add: position_elements_def layout_delta_fonts layout_angular_def Let_def
               del: times_jsnum_def)
  qed
qed

theorem deltaFontSize_half_counterexample:
  "hasDelta example_trace \<and> hasBigNumber example_trace
   \<and> bignumberFontSize (position_elements example_cn example_size 2 example_trace) = Fin 127.5
   \<and> deltaFontSize (position_elements example_cn example_size 2 example_trace) = Fin 44.625
   \<and> deltaFontSize (position_elements example_cn example_size 2 example_trace)
       \<noteq> Fin 0.5 * bignumberFontSize (position_elements example_cn example_size 2 example_trace)
   \<and> hasDelta delta_gauge_trace \<and> \<not> hasBigNumber delta_gauge_trace
   \<and> bignumberFontSize (position_elements example_cn example_size 2 delta_gauge_trace) = Fin 127.5
   \<and> deltaFontSize (position_elements example_cn example_size 2 delta_gauge_trace) = Fin 95.625
   \<and> deltaFontSize (position_elements example_cn example_size 2 delta_gauge_trace)
       \<noteq> bignumberFontSize (position_elements example_cn example_size 2 delta_gauge_trace)"
  by (simp add: example_trace_flags delta_gauge_trace_flags position_elements_def
      layout_delta_fonts layout_angular_def Let_def gauge_innerRadius_def gauge_radius_def
      example_cn_def example_size_def)

section \<open>Properties of the fit to box\<close>

text \<open>
  C5. For a measured box of positive width and height, the scale that the transform of
  the numbers applies is \<open>min(maxWidth / boxWidth, maxHeight / boxHeight)\<close> capped at
  one, so it is at most one; and a box that is exactly as large as the allotted region
  is scaled by exactly one.
\<close>

theorem fit_to_box_scale_capped:
  assumes "numbersMaxWidth lay = Fin mw" and "numbersMaxHeight lay = Fin mh"
    and "bbox_width bb = Fin bw" and "bbox_height bb = Fin bh" and "0 < bw" and "0 < bh"
  shows "(\<exists>k. scale_factor (numbers_transform lay bb) = Fin k \<and> k \<le> 1
             \<and> k = min 1 (min (mw / bw) (mh / bh)))
         \<and> scale_factor (numbers_transform
               (lay\<lparr>numbersMaxWidth := Fin bw, numbersMaxHeight := Fin bh\<rparr>) bb) = Fin 1"
  using assms
  by (auto simp add: scale_factor_def numbers_transform_def fitTextInside_def Let_def min_def)

lemma example_layout_box:
  "numbersMaxWidth example_layout = Fin 216.75" "numbersMaxHeight example_layout = Fin 108.375"
  by (simp_all add: example_layout_def example_trace_flags position_elements_def
      layout_delta_def layout_angular_def Let_def gauge_innerRadius_def gauge_radius_def
      example_cn_def example_size_def)

theorem fit_to_box_scale_capped_witness:
  "(\<exists>k. scale_factor (numbers_transform example_layout example_bbox) = Fin k \<and> k \<le> 1
        \<and> k = 0.7225)
   \<and> scale_factor (numbers_transform
         (example_layout\<lparr>numbersMaxWidth := Fin 300, numbersMaxHeight := Fin 90\<rparr>) example_bbox)
       = Fin 1"
  using fit_to_box_scale_capped [of example_layout "216.75" "108.375" example_bbox 300 90]
  by (simp add: example_layout_box example_bbox_def)

section \<open>Properties of the scene composer\<close>

lemma roles_step:
  "map (node_role \<circ> (\<lambda>(r, a). TargetArc r a) \<circ> Pair Step) xs = replicate (length xs) Step"
  by (induction xs) simp_all

lemma roles_step_bullet:
  "map (node_role \<circ> ((\<lambda>(r, a). TargetBullet r a) \<circ> Pair Step)) xs
     = replicate (length xs) Step"
  by (induction xs) simp_all

lemma angular_roles:
  "map node_role (angular_children tr) =
     (if isAngular tr
      then Background # replicate (length (steps (gauge tr))) Step
             @ (if truthy (threshold_value (threshold (gauge tr))) then [Threshold] else [])
             @ [ValueShape, Outline]
      else [])"
  by (simp add: angular_children_def enter_append_def Let_def roles_step)

lemma bullet_roles:
  "map node_role (bullet_children tr) =
     (if isBullet tr
      then Background # replicate (length (steps (gauge tr))) Step
             @ [ValueShape]
             @ (if truthy (threshold_value (threshold (gauge tr))) then [Threshold] else [])
             @ [Outline]
      else [])"
  by (simp add: bullet_children_def enter_append_def Let_def roles_step_bullet)

lemma step_data_append: "step_data (xs @ ys) = step_data xs @ step_data ys"
  by (induction xs rule: step_data.induct) simp_all

lemma step_data_steps:
  "step_data (map ((\<lambda>(r, a). TargetArc r a) \<circ> Pair Step) xs) = xs"
  "step_data (map ((\<lambda>(r, a). TargetBullet r a) \<circ> Pair Step) xs) = xs"
  by (induction xs) simp_all

lemma angular_steps:
  "step_data (angular_children tr) = (if isAngular tr then steps (gauge tr) else [])"
  by (simp add: angular_children_def enter_append_def Let_def step_data_append step_data_steps)

lemma bullet_steps:
  "step_data (bullet_children tr) = (if isBullet tr then steps (gauge tr) else [])"
  by (simp add: bullet_children_def enter_append_def Let_def step_data_append step_data_steps)

lemma sorted_ranks:
  "sorted (map rank (Background # replicate n Step @ (if b then [Threshold] else [])
                       @ [ValueShape, Outline]))"
  by (auto simp add: sorted_append)

lemma angular_sorted: "specified_z_order (angular_children tr)"
  unfolding specified_z_order_def map_map [symmetric] angular_roles
  using sorted_ranks by simp

lemma bullet_trace_flags: "isBullet bullet_trace" "\<not> isAngular bullet_trace"
  by (simp_all add: bullet_trace_def isBullet_def isAngular_def hasGauge_def example_trace_def
      example_gauge_def)

text \<open>
  C7 (as the code has it). On the first draw the children of an angular gauge are, from
  back to front: the background, the steps as declared, the threshold arc when the
  threshold value is truthy, the value arc, the outline; this is the specified order.
  The children of a bullet gauge are: the background, the steps as declared, the value
  bar, the threshold line when the threshold value is truthy, the outline.
\<close>

theorem gauge_draw_order:
  "map node_role (angular_children tr) =
     (if isAngular tr
      then Background # replicate (length (steps (gauge tr))) Step
             @ (if truthy (threshold_value (threshold (gauge tr))) then [Threshold] else [])
             @ [ValueShape, Outline]
      else [])
   \<and> specified_z_order (angular_children tr)
   \<and> step_data (angular_children tr) = (if isAngular tr then steps (gauge tr) else [])
   \<and> map node_role (bullet_children tr) =
     (if isBullet tr
      then Background # replicate (length (steps (gauge tr))) Step
             @ [ValueShape]
             @ (if truthy (threshold_value (threshold (gauge tr))) then [Threshold] else [])
             @ [Outline]
      else [])
   \<and> step_data (bullet_children tr) = (if isBullet tr then steps (gauge tr) else [])"
  using angular_roles [of tr] angular_sorted [of tr] angular_steps [of tr]
    bullet_roles [of tr] bullet_steps [of tr]
  by (simp only: simp_thms)

theorem gauge_draw_order_witness:
  "map node_role (angular_children example_trace)
     = [Background, Step, Step, Threshold, ValueShape, Outline]
   \<and> specified_z_order (angular_children example_trace)
   \<and> step_data (angular_children example_trace) = steps example_gauge
   \<and> map node_role (bullet_children example_trace) = []"
  using gauge_draw_order [of example_trace]
  by (simp add: example_trace_flags) (simp add: example_trace_def example_gauge_def)

theorem bullet_draw_order_counterexample:
  "isBullet bullet_trace
   \<and> map node_role (bullet_children bullet_trace)
       = [Background, Step, Step, ValueShape, Threshold, Outline]
   \<and> \<not> specified_z_order (bullet_children bullet_trace)"
  unfolding specified_z_order_def map_map [symmetric] bullet_roles
  by (simp add: bullet_trace_flags) (simp add: bullet_trace_def example_trace_def example_gauge_def)

text \<open>
  C10. A threshold whose value is falsy (\<open>undefined\<close>, zero or \<open>NaN\<close>) is not
  drawn: the angular gauge gets no threshold arc and the bullet gauge no threshold line,
  also when the value zero lies inside the range.
\<close>

theorem falsy_threshold_not_drawn:
  assumes "threshold_value (threshold (gauge tr)) \<in> {None, Some (Fin 0), Some NaN}"
  shows "Threshold \<notin> node_role ` set (angular_children tr)
         \<and> Threshold \<notin> node_role ` set (bullet_children tr)"
proof -
  from assms have f: "\<not> truthy (threshold_value (threshold (gauge tr)))" by auto
  have a: "Threshold \<notin> set (map node_role (angular_children tr))"
    unfolding angular_roles using f by simp
  have b: "Threshold \<notin> set (map node_role (bullet_children tr))"
    unfolding bullet_roles using f by simp
  from a b show ?thesis by simp
qed

theorem falsy_threshold_not_drawn_witness:
  "trace_min zero_threshold_trace = Fin (- 5) \<and> trace_max zero_threshold_trace = Fin 5
   \<and> threshold_value (threshold (gauge zero_threshold_trace)) = Some (Fin 0)
   \<and> isAngular zero_threshold_trace
   \<and> Threshold \<notin> node_role ` set (angular_children zero_threshold_trace)
   \<and> Threshold \<notin> node_role ` set (bullet_children zero_threshold_trace)"
  using falsy_threshold_not_drawn [of zero_threshold_trace]
  by (simp add: zero_threshold_trace_def example_trace_def example_gauge_def isAngular_def
      hasGauge_def)

section \<open>Properties of the transition orchestrator\<close>

lemma consistent_initial: "consistent (initial_world tr)"
  by (simp add: consistent_def initial_world_def is_running_def)

lemma consistent_frame: "consistent w \<Longrightarrow> consistent (frame el t w)"
  by (simp add: consistent_def frame_def is_running_def split: option.splits)

lemma consistent_interrupt: "consistent w \<Longrightarrow> consistent (interrupt el w)"
  unfolding consistent_def interrupt_def on_interrupt_def call_onComplete_def is_running_def
  by (auto split: option.splits)

lemma consistent_finish: "consistent w \<Longrightarrow> consistent (finish el w)"
  unfolding consistent_def finish_def frame_def on_end_def call_onComplete_def is_running_def
  by (auto split: option.splits)

lemma consistent_start:
  assumes "consistent w" and "\<And>w'. t_onComplete (tween w') = oc"
    and "\<And>k. oc = Some k \<Longrightarrow> k < made w \<and> (k, el) \<notin> set (started w)"
    and "bound w \<noteq> None"
  shows "consistent (start_transition el tween w)"
  using assms
  unfolding consistent_def start_transition_def supersede_def on_interrupt_def call_onComplete_def is_running_def Let_def
  by (auto split: option.splits)


lemma made_start: "made (start_transition el tween w) = made w"
  by (simp add: start_transition_def supersede_def on_interrupt_def call_onComplete_def Let_def split: option.splits)

lemma started_start:
  assumes "\<And>w'. t_onComplete (tween w') = oc"
  shows "set (started (start_transition el tween w))
           = set (started w) \<union> (case oc of None \<Rightarrow> {} | Some k \<Rightarrow> {(k, el)})"
  using assms
  by (auto simp add: start_transition_def supersede_def on_interrupt_def call_onComplete_def Let_def split: option.splits)

lemma consistent_animate:
  assumes "consistent w" and "\<And>w'. t_onComplete (tween w') = oc"
    and "\<And>k. oc = Some k \<Longrightarrow> k < made w \<and> (k, el) \<notin> set (started w)"
    and "bound w \<noteq> None"
  shows "consistent (animate el present has tween final w)"
proof -
  have "consistent (w\<lparr>shown := (shown w)(el \<mapsto> final)\<rparr>)"
    using assms(1) by (simp add: consistent_def is_running_def)
  with assms consistent_start [of w tween oc el] show ?thesis
    by (simp add: animate_def)
qed

lemma bound_animate: "bound (animate el present has tween final w) = bound w"
  by (simp add: animate_def start_transition_def supersede_def on_interrupt_def
      call_onComplete_def Let_def split: option.splits)

lemma made_animate: "made (animate el present has tween final w) = made w"
  by (simp add: animate_def made_start)

lemma started_animate:
  assumes "\<And>w'. t_onComplete (tween w') = oc"
  shows "set (started (animate el present has tween final w))
           \<subseteq> set (started w) \<union> (case oc of None \<Rightarrow> {} | Some k \<Rightarrow> {(k, el)})"
  using started_start [of tween oc el w, OF assms]
  by (auto simp add: animate_def)

lemma animate_chain:
  assumes c: "consistent w" and t: "\<And>w'. t_onComplete (tween w') = oc"
    and f: "\<And>k. oc = Some k \<Longrightarrow> k < made w \<and> (\<forall>e \<in> insert el els. (k, e) \<notin> set (started w))"
    and n: "el \<notin> els" and b: "bound w \<noteq> None"
  shows "consistent (animate el present has tween final w)
         \<and> (\<forall>k. oc = Some k \<longrightarrow> k < made (animate el present has tween final w)
                \<and> (\<forall>e \<in> els. (k, e) \<notin> set (started (animate el present has tween final w))))"
proof -
  have 1: "consistent (animate el present has tween final w)"
    using c t f b by (intro consistent_animate [where oc = oc]) auto
  have 2: "\<forall>k. oc = Some k \<longrightarrow> k < made (animate el present has tween final w)
                \<and> (\<forall>e \<in> els. (k, e) \<notin> set (started (animate el present has tween final w)))"
    using started_animate [of tween oc el present has final w, OF t] f n
    by (auto simp add: made_animate)
  from 1 2 show ?thesis by simp
qed

lemma consistent_made: "consistent w \<Longrightarrow> consistent (w\<lparr>made := Suc (made w)\<rparr>)"
  by (auto simp add: consistent_def is_running_def less_Suc_eq)

lemma consistent_trace: "consistent w \<Longrightarrow> consistent (w\<lparr>w_trace := tr, bound := Some d\<rparr>)"
  by (simp add: consistent_def is_running_def)

lemma consistent_plot_trace:
  assumes "consistent w"
  shows "consistent (plot_trace c2p cd0 opts given w)"
proof -
  define has where "has = hasTransition opts"
  define oc where "oc = (if has \<and> given then Some (made w) else None)"
  define w1 where "w1 = (if has \<and> given then w\<lparr>made := Suc (made w)\<rparr> else w)"
  define w2 where "w2 = w1\<lparr>w_trace := init_deltaLastValue (w_trace w1), bound := Some cd0\<rparr>"
  define trace where "trace = w_trace w2"
  define tw3 where "tw3 = (\<lambda>w :: world. \<lparr>t_from = cd_lastY cd0, t_to = cd_y cd0,
                       t_onComplete = oc\<rparr>)"
  define w3 where "w3 = animate NumberText (hasBigNumber trace) has tw3 (cd_y cd0) w2"
  define tw4 where "tw4 = (\<lambda>w :: world. \<lparr>t_from = to_number (deltaLastValue (w_trace w)),
                       t_to = deltaValue trace cd0,
                       t_onComplete = oc\<rparr>)"
  define w4 where "w4 = animate DeltaText (hasDelta trace) has tw4 (deltaValue trace cd0) w3"
  define tw5 where "tw5 = (\<lambda>w :: world. \<lparr>t_from = valueToAngle trace (cd_lastY cd0),
                       t_to = valueToAngle trace (cd_y cd0),
                       t_onComplete = oc\<rparr>)"
  define w5 where "w5 = animate FgArcPath (isAngular trace) has tw5 (valueToAngle trace (cd_y cd0)) w4"
  define width where "width = Math_max (Fin 0) (c2p (Math_min (trace_max trace) (cd_y cd0)))"
  define tw6 where "tw6 = (\<lambda>w :: world. \<lparr>t_from = to_number (shown w FgBulletRect), t_to = width,
                 t_onComplete = oc\<rparr>)"
  have eq: "plot_trace c2p cd0 opts given w = animate FgBulletRect (isBullet trace) has tw6 width w5"
    unfolding plot_trace_def Let_def w5_def tw5_def w4_def tw4_def w3_def tw3_def trace_def w2_def
      w1_def oc_def has_def tw6_def width_def ..
  have c1: "consistent w1" using assms consistent_made by (simp add: w1_def)
  have c2: "consistent w2" unfolding w2_def using c1 by (rule consistent_trace)
  have f2: "\<And>k. oc = Some k \<Longrightarrow> k < made w2
              \<and> (\<forall>e \<in> insert NumberText {DeltaText, FgArcPath, FgBulletRect}. (k, e) \<notin> set (started w2))"
    using assms by (auto simp add: oc_def w2_def w1_def consistent_def split: if_splits)
  have s3: "consistent w3 \<and> (\<forall>k. oc = Some k \<longrightarrow> k < made w3
                \<and> (\<forall>e \<in> {DeltaText, FgArcPath, FgBulletRect}. (k, e) \<notin> set (started w3)))"
    unfolding w3_def by (rule animate_chain [OF c2 _ f2]) (simp_all add: tw3_def w2_def)
  have b3: "bound w3 \<noteq> None" by (simp add: w3_def bound_animate w2_def)
  have b4: "bound w4 \<noteq> None" using b3 by (simp add: w4_def bound_animate)
  have b5: "bound w5 \<noteq> None" using b4 by (simp add: w5_def bound_animate)
  have s4: "consistent w4 \<and> (\<forall>k. oc = Some k \<longrightarrow> k < made w4
                \<and> (\<forall>e \<in> {FgArcPath, FgBulletRect}. (k, e) \<notin> set (started w4)))"
    unfolding w4_def using s3 b3 by (intro animate_chain) (simp_all add: tw4_def)
  have s5: "consistent w5 \<and> (\<forall>k. oc = Some k \<longrightarrow> k < made w5
                \<and> (\<forall>e \<in> {FgBulletRect}. (k, e) \<notin> set (started w5)))"
    unfolding w5_def using s4 b4 by (intro animate_chain) (simp_all add: tw5_def)
  have "consistent (animate FgBulletRect (isBullet trace) has tw6 width w5)"
    using s5 b5 by (intro consistent_animate [where oc = oc]) (simp_all add: tw6_def)
  then show ?thesis by (simp only: eq)
qed

lemma consistent_step: "consistent w \<Longrightarrow> consistent (step c2p e w)"
  by (cases e) (simp_all add: consistent_plot_trace consistent_frame consistent_finish consistent_interrupt)

lemma consistent_run: "consistent w \<Longrightarrow> consistent (run c2p es w)"
  by (induction es arbitrary: w) (simp_all add: consistent_step)

lemma count_list_distinct: "distinct xs \<Longrightarrow> x \<in> set xs \<Longrightarrow> count_list xs x = 1"
  by (induction xs) auto

lemma supersede_fields:
  "w_trace (supersede el w) = w_trace w" "bound (supersede el w) = bound w"
  "shown (supersede el w) = shown w"
  "running (supersede el w) = running w" "made (supersede el w) = made w"
  "started (supersede el w) = started w"
  by (simp_all add: supersede_def on_interrupt_def call_onComplete_def split: option.splits)

lemma animate_trace: "w_trace (animate el p h tw f w) = w_trace w"
  by (simp add: animate_def start_transition_def Let_def supersede_fields)

lemma animate_running:
  "running (animate el p h tw f w) el' =
     (if p \<and> h \<and> el' = el then Some (tw (supersede el w)) else running w el')"
  by (simp add: animate_def start_transition_def Let_def supersede_fields)

lemma animate_shown:
  "shown (animate el p h tw f w) el' =
     (if p \<and> \<not> h \<and> el' = el then Some f else shown w el')"
  by (simp add: animate_def start_transition_def Let_def supersede_fields)

lemma animate_still:
  "\<not> h \<Longrightarrow> running (animate el p h tw f w) = running w"
  "\<not> h \<Longrightarrow> made (animate el p h tw f w) = made w"
  "\<not> h \<Longrightarrow> calls (animate el p h tw f w) = calls w"
  "\<not> h \<Longrightarrow> started (animate el p h tw f w) = started w"
  by (simp_all add: animate_def)

lemma init_flags:
  "hasBigNumber (init_deltaLastValue tr) = hasBigNumber tr"
  "hasDelta (init_deltaLastValue tr) = hasDelta tr"
  "isAngular (init_deltaLastValue tr) = isAngular tr"
  "isBullet (init_deltaLastValue tr) = isBullet tr"
  "deltaValue (init_deltaLastValue tr) d = deltaValue tr d"
  "valueToAngle (init_deltaLastValue tr) v = valueToAngle tr v"
  "trace_max (init_deltaLastValue tr) = trace_max tr"
  by (simp_all add: init_deltaLastValue_def hasBigNumber_def hasDelta_def isAngular_def
      isBullet_def hasGauge_def deltaValue_def valueToAngle_def)

lemma plot_trace_trace: "w_trace (plot_trace c2p cd0 opts given w) = init_deltaLastValue (w_trace w)"
  by (simp add: plot_trace_def Let_def animate_trace)

lemma plot_trace_bound: "bound (plot_trace c2p cd0 opts given w) = Some cd0"
  by (simp add: plot_trace_def Let_def bound_animate)

lemma plot_trace_still:
  "\<not> hasTransition opts \<Longrightarrow> running (plot_trace c2p cd0 opts given w) = running w"
  by (simp add: plot_trace_def Let_def animate_still)


lemma plot_trace_delta_running:
  assumes "hasTransition opts" and "hasDelta (w_trace w)"
  shows "running (plot_trace c2p cd0 opts given w) DeltaText =
           Some \<lparr>t_from = to_number (deltaLastValue (init_deltaLastValue (w_trace w))),
                 t_to = deltaValue (w_trace w) cd0,
                 t_onComplete = (if given then Some (made w) else None)\<rparr>"
  using assms
  by (simp add: plot_trace_def Let_def animate_running animate_trace supersede_fields init_flags)

lemma frame_fields:
  "w_trace (frame el t w) = w_trace w" "running (frame el t w) = running w"
  "bound (frame el t w) = bound w"
  by (simp_all add: frame_def split: option.splits)

lemma frames_fields:
  "w_trace (run c2p (map (\<lambda>(el, t). Frame el t) fs) w) = w_trace w \<and>
   running (run c2p (map (\<lambda>(el, t). Frame el t) fs) w) = running w \<and>
   bound (run c2p (map (\<lambda>(el, t). Frame el t) fs) w) = bound w"
  by (induction fs arbitrary: w) (auto simp add: frame_fields)

lemma interrupt_trace: "w_trace (interrupt el w) = w_trace w"
  by (simp add: interrupt_def on_interrupt_def call_onComplete_def split: option.splits)

lemma finish_delta:
  assumes "running w DeltaText = Some t" and "bound w = Some d"
  shows "deltaLastValue (w_trace (finish DeltaText w)) = Some (deltaValue (w_trace w) d)"
  using assms
  by (simp add: finish_def on_end_def call_onComplete_def frame_def split: option.splits)

lemma init_defined: "Some (to_number (deltaLastValue (init_deltaLastValue tr)))
    = deltaLastValue (init_deltaLastValue tr)"
  by (cases "deltaLastValue tr") (simp_all add: init_deltaLastValue_def)

lemma init_idem: "init_deltaLastValue (init_deltaLastValue tr) = init_deltaLastValue tr"
  by (simp add: init_deltaLastValue_def)


lemma step_committed:
  "committed (step c2p e w) =
     (case e of
        Render cd0 opts given \<Rightarrow> deltaLastValue (init_deltaLastValue (w_trace w))
      | Frame el t \<Rightarrow> committed w
      | End el \<Rightarrow>
          (if el = DeltaText
           then (case running w DeltaText of None \<Rightarrow> committed w
                 | Some t \<Rightarrow>
                     (case bound w of None \<Rightarrow> committed w
                      | Some d \<Rightarrow> Some (deltaValue (w_trace w) d)))
           else committed w)
      | Interrupt el \<Rightarrow> committed w)"
proof (cases e)
  case (Render cd0 opts given)
  then show ?thesis by (simp add: committed_def plot_trace_trace)
next
  case (Frame el t)
  then show ?thesis by (simp add: committed_def frame_fields)
next
  case (End el)
  then show ?thesis
    by (simp add: committed_def finish_def on_end_def call_onComplete_def frame_def
        split: option.splits)
next
  case (Interrupt el)
  then show ?thesis by (simp add: committed_def interrupt_trace)
qed

lemma run_append: "run c2p (xs @ ys) w = run c2p ys (run c2p xs w)"
  by (induction xs arbitrary: w) simp_all

lemma consistent_count:
  assumes c: "consistent w"
  shows "count_list (calls w) (k, el) =
     (if (k, el) \<in> set (started w) \<and> \<not> is_running w k el then 1 else 0)"
proof -
  from c have d: "distinct (calls w)" by (simp add: consistent_def)
  have m: "((k, el) \<in> set (calls w)) = ((k, el) \<in> set (started w) \<and> \<not> is_running w k el)"
    using c unfolding consistent_def by fastforce
  show ?thesis
  proof (cases "(k, el) \<in> set (calls w)")
    case True
    with d have "count_list (calls w) (k, el) = 1" by (simp add: count_list_distinct)
    with True m show ?thesis by simp
  next
    case False
    then have "count_list (calls w) (k, el) = 0" by (simp add: count_list_0_iff)
    with False m show ?thesis by simp
  qed
qed

lemma animate_started:
  "started (animate el p h tw f w) =
     (if p \<and> h then (case t_onComplete (tw (supersede el w)) of None \<Rightarrow> started w
                      | Some k \<Rightarrow> started w @ [(k, el)])
      else started w)"
  by (simp add: animate_def start_transition_def Let_def supersede_fields split: option.splits)

lemma animate_made: "made (animate el p h tw f w) = made w"
  by (simp add: animate_def start_transition_def Let_def supersede_fields)

lemma plot_trace_made:
  "made (plot_trace c2p cd0 opts given w) = (if hasTransition opts \<and> given then Suc (made w) else made w)"
  by (simp add: plot_trace_def Let_def animate_made)

lemma plot_trace_running:
  assumes "hasTransition opts" and "in_selection (w_trace w) el"
  shows "is_running (plot_trace c2p cd0 opts given w) k el = (given \<and> k = made w)"
  using assms
  by (cases el)
     (auto simp add: is_running_def plot_trace_def Let_def animate_running animate_trace init_flags)

lemma plot_trace_started:
  assumes "hasTransition opts" and "in_selection (w_trace w) el"
  shows "(made w, el) \<in> set (started (plot_trace c2p cd0 opts True w))"
  using assms
  by (cases el)
     (simp_all add: plot_trace_def Let_def animate_started animate_trace init_flags)

lemma plot_trace_started_mono:
  "set (started w) \<subseteq> set (started (plot_trace c2p cd0 opts given w))"
  by (auto simp add: plot_trace_def Let_def animate_started split: option.splits)

lemma frame_started: "started (frame el t w) = started w" "made (frame el t w) = made w"
  by (simp_all add: frame_def split: option.splits)

lemma frames_started:
  "started (run c2p (map (\<lambda>(el, t). Frame el t) fs) w) = started w \<and>
   made (run c2p (map (\<lambda>(el, t). Frame el t) fs) w) = made w"
  by (induction fs arbitrary: w) (auto simp add: frame_started)

lemma finish_started: "started (finish el w) = started w"
  by (simp add: finish_def on_end_def call_onComplete_def frame_def split: option.splits)

lemma finish_not_running: "\<not> is_running (finish el w) k el"
  by (simp add: finish_def on_end_def call_onComplete_def frame_def is_running_def split: option.splits)

lemma reachable_flags:
  "in_selection (w_trace (step c2p e w)) el = in_selection (w_trace w) el"
proof (cases e)
  case (Render cd0 opts given)
  then show ?thesis by (cases el) (simp_all add: plot_trace_trace init_flags)
next
  case (Frame el' t)
  then show ?thesis by (simp add: frame_fields)
next
  case (End el')
  then show ?thesis
    by (cases el) (simp_all add: finish_def on_end_def call_onComplete_def frame_def
        hasBigNumber_def hasDelta_def isAngular_def isBullet_def hasGauge_def split: option.splits)
next
  case (Interrupt el')
  then show ?thesis by (simp add: interrupt_trace)
qed

lemma run_flags: "in_selection (w_trace (run c2p es w)) el = in_selection (w_trace w) el"
  by (induction es arbitrary: w) (simp_all add: reachable_flags)


lemma example_has: "hasTransition example_opts" "\<not> hasTransition zero_opts" "\<not> hasTransition None"
  by (simp_all add: hasTransition_def example_opts_def zero_opts_def)

lemma initial_fields:
  "w_trace (initial_world tr) = tr" "made (initial_world tr) = 0" "calls (initial_world tr) = []"
  "started (initial_world tr) = []" "shown (initial_world tr) el = None"
  "running (initial_world tr) el = None"
  by (simp_all add: initial_world_def)


lemma midflight_shown: "shown world_midflight DeltaText = Some (Fin 10)"
  by (simp add: world_midflight_def world_animating_def frame_def
      plot_trace_delta_running example_has initial_fields example_trace_flags
      interpolateNumber_def init_deltaLastValue_def)
     (simp add: cd_first_def deltaValue_def example_trace_def)


text \<open>
  C6. A render without transition options, without a duration or with duration zero
  has no transition: it makes no callback, calls none, starts no transition and leaves
  the running ones as they are, and each element of the trace shows its final value at
  once: the number \<open>cd[0].y\<close>, the delta its value, the arc the angle of
  \<open>cd[0].y\<close>, the bar the width \<open>max(0, c2p(min(trace.max, cd[0].y)))\<close>.
\<close>

theorem render_without_transition_is_synchronous:
  assumes "\<not> hasTransition opts"
  shows "\<not> hasTransition None \<and> \<not> hasTransition (Some \<lparr>duration = None\<rparr>)
    \<and> \<not> hasTransition (Some \<lparr>duration = Some (Fin 0)\<rparr>)
    \<and> made (plot_trace c2p cd0 opts given w) = made w
    \<and> calls (plot_trace c2p cd0 opts given w) = calls w
    \<and> started (plot_trace c2p cd0 opts given w) = started w
    \<and> running (plot_trace c2p cd0 opts given w) = running w
    \<and> shown (plot_trace c2p cd0 opts given w) NumberText
        = (if hasBigNumber (w_trace w) then Some (cd_y cd0) else shown w NumberText)
    \<and> shown (plot_trace c2p cd0 opts given w) DeltaText
        = (if hasDelta (w_trace w) then Some (deltaValue (w_trace w) cd0) else shown w DeltaText)
    \<and> shown (plot_trace c2p cd0 opts given w) FgArcPath
        = (if isAngular (w_trace w) then Some (valueToAngle (w_trace w) (cd_y cd0))
           else shown w FgArcPath)
    \<and> shown (plot_trace c2p cd0 opts given w) FgBulletRect
        = (if isBullet (w_trace w)
           then Some (Math_max (Fin 0) (c2p (Math_min (trace_max (w_trace w)) (cd_y cd0))))
           else shown w FgBulletRect)"
  using assms
  by (simp add: plot_trace_def Let_def animate_still animate_shown animate_trace init_flags
      hasTransition_def)


theorem render_without_transition_is_synchronous_witness:
  "made (plot_trace example_c2p cd_first zero_opts True (initial_world example_trace)) = 0
   \<and> calls (plot_trace example_c2p cd_first zero_opts True (initial_world example_trace)) = []
   \<and> started (plot_trace example_c2p cd_first zero_opts True (initial_world example_trace)) = []
   \<and> running (plot_trace example_c2p cd_first zero_opts True (initial_world example_trace)) DeltaText = None
   \<and> shown (plot_trace example_c2p cd_first zero_opts True (initial_world example_trace)) NumberText
       = Some (Fin 100)
   \<and> shown (plot_trace example_c2p cd_first zero_opts True (initial_world example_trace)) DeltaText
       = Some (Fin 20)
   \<and> shown (plot_trace example_c2p cd_first zero_opts True (initial_world example_trace)) FgBulletRect
       = None"
  using render_without_transition_is_synchronous [of zero_opts example_c2p cd_first True "initial_world example_trace"]
  by (simp add: example_has initial_fields example_trace_flags)
     (simp add: cd_first_def deltaValue_def example_trace_def)


text \<open>
  C2 (as the code has it). The value \<open>trace._deltaLastValue\<close> changes at two places
  only: the start of a render replaces a falsy value by zero, and the end of a delta
  transition stores the delta of the datum that the delta has when the event fires;
  frames and interrupts leave it alone. So after a render with a transition, whatever
  frames have run, the value is the one that the render left; an interrupt keeps it; a
  second render with a transition keeps it and starts the new delta transition from
  it, towards the new delta; and the end of either transition stores that transition's
  target. A render without a transition in between binds a new datum and interrupts
  nothing: the transition keeps its target, and its end stores the delta of the new
  datum.
\<close>

theorem delta_source_committed_at_completion:
  fixes c2p d1 d2 d3 o1 o2 o3 g1 g2 g3 w0 fs e w
  assumes "hasTransition o1" and "hasTransition o2" and "\<not> hasTransition o3"
    and "hasDelta (w_trace w0)"
  defines "w1 \<equiv> plot_trace c2p d1 o1 g1 w0"
  defines "w2 \<equiv> run c2p (map (\<lambda>(el, t). Frame el t) fs) w1"
  defines "w3 \<equiv> plot_trace c2p d2 o2 g2 w2"
  defines "w4 \<equiv> plot_trace c2p d3 o3 g3 w2"
  shows "committed (step c2p e w) =
       (case e of
          Render cd0 opts given \<Rightarrow> deltaLastValue (init_deltaLastValue (w_trace w))
        | Frame el t \<Rightarrow> committed w
        | End el \<Rightarrow>
            (if el = DeltaText
             then (case running w DeltaText of None \<Rightarrow> committed w
                   | Some t \<Rightarrow>
                       (case bound w of None \<Rightarrow> committed w
                        | Some d \<Rightarrow> Some (deltaValue (w_trace w) d)))
             else committed w)
        | Interrupt el \<Rightarrow> committed w)
     \<and> committed w2 = committed w1
     \<and> committed (interrupt DeltaText w2) = committed w1
     \<and> committed w3 = committed w1
     \<and> (\<exists>t. running w3 DeltaText = Some t \<and> Some (t_from t) = committed w1
             \<and> t_to t = deltaValue (w_trace w0) d2)
     \<and> (\<exists>t. running w2 DeltaText = Some t \<and> t_to t = deltaValue (w_trace w0) d1)
     \<and> committed (finish DeltaText w2) = Some (deltaValue (w_trace w0) d1)
     \<and> committed (finish DeltaText w3) = Some (deltaValue (w_trace w0) d2)
     \<and> committed w4 = committed w1
     \<and> (\<exists>t. running w4 DeltaText = Some t \<and> Some (t_from t) = committed w1
             \<and> t_to t = deltaValue (w_trace w0) d1)
     \<and> committed (finish DeltaText w4) = Some (deltaValue (w_trace w0) d3)"
proof -
  have t1: "w_trace w1 = init_deltaLastValue (w_trace w0)"
    by (simp add: w1_def plot_trace_trace)
  have t2: "w_trace w2 = w_trace w1" and r2: "running w2 = running w1"
    and b2: "bound w2 = Some d1"
    using frames_fields [of c2p fs w1] by (simp_all add: w2_def w1_def plot_trace_bound)
  have t3: "w_trace w3 = w_trace w1"
    by (simp add: w3_def plot_trace_trace t2 t1 init_idem)
  have t4: "w_trace w4 = w_trace w1"
    by (simp add: w4_def plot_trace_trace t2 t1 init_idem)
  have d2: "hasDelta (w_trace w2)" using assms(4) by (simp add: t2 t1 init_flags)
  have r1: "running w1 DeltaText =
           Some \<lparr>t_from = to_number (deltaLastValue (init_deltaLastValue (w_trace w0))),
                 t_to = deltaValue (w_trace w0) d1,
                 t_onComplete = (if g1 then Some (made w0) else None)\<rparr>"
    unfolding w1_def by (rule plot_trace_delta_running [OF assms(1,4)])
  have r3: "running w3 DeltaText =
           Some \<lparr>t_from = to_number (deltaLastValue (init_deltaLastValue (w_trace w2))),
                 t_to = deltaValue (w_trace w2) d2,
                 t_onComplete = (if g2 then Some (made w2) else None)\<rparr>"
    unfolding w3_def by (rule plot_trace_delta_running [OF assms(2) d2])
  have r4: "running w4 = running w1"
    by (simp add: w4_def plot_trace_still [OF assms(3)] r2)
  have b3: "bound w3 = Some d2" by (simp add: w3_def plot_trace_bound)
  have b4: "bound w4 = Some d3" by (simp add: w4_def plot_trace_bound)
  have a: "committed w2 = committed w1" by (simp add: committed_def t2)
  have b: "committed (interrupt DeltaText w2) = committed w1"
    by (simp add: committed_def interrupt_trace t2)
  have c: "committed w3 = committed w1" by (simp add: committed_def t3)
  have d: "\<exists>t. running w3 DeltaText = Some t \<and> Some (t_from t) = committed w1
             \<and> t_to t = deltaValue (w_trace w0) d2"
    by (simp add: r3 committed_def t2 t1 init_idem init_flags init_defined)
  have d': "\<exists>t. running w2 DeltaText = Some t \<and> t_to t = deltaValue (w_trace w0) d1"
    by (simp add: r2 r1)
  have e: "committed (finish DeltaText w2) = Some (deltaValue (w_trace w0) d1)"
    using finish_delta [of w2, OF r1 [folded r2] b2] by (simp add: committed_def t2 t1 init_flags)
  have f: "committed (finish DeltaText w3) = Some (deltaValue (w_trace w0) d2)"
    using finish_delta [of w3, OF r3 b3] by (simp add: committed_def t3 t1 init_flags)
  have g: "committed w4 = committed w1" by (simp add: committed_def t4)
  have h: "\<exists>t. running w4 DeltaText = Some t \<and> Some (t_from t) = committed w1
             \<and> t_to t = deltaValue (w_trace w0) d1"
    by (simp add: r4 r1 committed_def t1 init_defined)
  have i: "committed (finish DeltaText w4) = Some (deltaValue (w_trace w0) d3)"
    using finish_delta [of w4, OF r1 [folded r4] b4] by (simp add: committed_def t4 t1 init_flags)
  from a b c d d' e f g h i step_committed [of c2p e w] show ?thesis by (simp only: simp_thms)
qed

theorem delta_source_committed_at_completion_witness:
  "committed (step example_c2p (Interrupt DeltaText) world_midflight) = committed world_midflight
   \<and> committed world_animating = Some (Fin 0)
   \<and> shown world_midflight DeltaText = Some (Fin 10)
   \<and> committed world_midflight = Some (Fin 0)
   \<and> committed (interrupt DeltaText world_midflight) = Some (Fin 0)
   \<and> (\<exists>t. running (plot_trace example_c2p cd_second example_opts True world_midflight) DeltaText = Some t
          \<and> t_from t = Fin 0 \<and> t_to t = Fin 40)
   \<and> committed (finish DeltaText world_midflight) = Some (Fin 20)
   \<and> committed (finish DeltaText (plot_trace example_c2p cd_second example_opts True world_midflight))
       = Some (Fin 40)
   \<and> (\<exists>t. running (plot_trace example_c2p cd_second None True world_midflight) DeltaText = Some t
          \<and> t_from t = Fin 0 \<and> t_to t = Fin 20)
   \<and> committed (finish DeltaText (plot_trace example_c2p cd_second None True world_midflight))
       = Some (Fin 40)"
proof -
  have c: "committed world_animating = Some (Fin 0)"
    by (simp add: committed_def world_animating_def plot_trace_trace initial_fields
        init_deltaLastValue_def) (simp add: example_trace_def)
  have v: "deltaValue example_trace cd_first = Fin 20" "deltaValue example_trace cd_second = Fin 40"
    by (simp_all add: deltaValue_def example_trace_def cd_first_def cd_second_def)
  show ?thesis
    using delta_source_committed_at_completion [where ?o1.0 = example_opts and ?o2.0 = example_opts
        and ?o3.0 = None and ?w0.0 = "initial_world example_trace" and c2p = example_c2p
        and ?d1.0 = cd_first and ?g1.0 = True and fs = "[(DeltaText, Fin 0.5)]"
        and ?d2.0 = cd_second and ?g2.0 = True and ?d3.0 = cd_second and ?g3.0 = True
        and e = "Interrupt DeltaText" and w = world_midflight]
    using c midflight_shown
    by (simp add: example_has initial_fields example_trace_flags v
        world_midflight_def world_animating_def del: run.simps(2))
qed

text \<open>
  The end of a delta transition after a render without a transition: the transition
  runs to its target, the delta 20 of the first datum, and the end stores the delta 40
  of the datum that the later render has bound.
\<close>

theorem delta_end_stores_rebound_datum_counterexample:
  "map_option t_to
     (running (run example_c2p
        [Render cd_first example_opts True, Frame DeltaText (Fin 0.5), Render cd_second None True]
        (initial_world example_trace)) DeltaText) = Some (Fin 20)
   \<and> committed (run example_c2p
        [Render cd_first example_opts True, Frame DeltaText (Fin 0.5), Render cd_second None True,
         End DeltaText]
        (initial_world example_trace)) = Some (Fin 40)"
proof -
  let ?w = "plot_trace example_c2p cd_second None True world_midflight"
  have v: "deltaValue example_trace cd_first = Fin 20" "deltaValue example_trace cd_second = Fin 40"
    by (simp_all add: deltaValue_def example_trace_def cd_first_def cd_second_def)
  have r: "running ?w DeltaText =
             Some \<lparr>t_from = to_number (deltaLastValue (init_deltaLastValue example_trace)),
                   t_to = Fin 20, t_onComplete = Some 0\<rparr>"
    by (simp add: plot_trace_still example_has world_midflight_def frame_fields
        world_animating_def plot_trace_delta_running initial_fields example_trace_flags v)
  have b: "bound ?w = Some cd_second" by (rule plot_trace_bound)
  have t: "deltaValue (w_trace ?w) cd_second = Fin 40"
    by (simp add: plot_trace_trace world_midflight_def frame_fields world_animating_def
        initial_fields init_flags v)
  have "committed (finish DeltaText ?w) = Some (Fin 40)"
    using finish_delta [OF r b] by (simp add: committed_def t)
  with r show ?thesis
    by (simp add: world_midflight_def world_animating_def)
qed

text \<open>
  C3. In every state that renders, frames, ends and interrupts can reach, a callback has
  been called from the handlers of an element exactly once when the transition that was
  started with it on that element runs no more, and not at all otherwise. A render with
  a transition and a callback starts, on each element of the trace, a transition that
  holds the new callback and has not yet called it; its natural end calls it once, and
  so does a later render with a transition, which interrupts it.
\<close>

theorem completion_callback_exactly_once:
  fixes c2p es tr cd1 o1 cd2 o2 g2 fs el
  defines "w \<equiv> run c2p es (initial_world tr)"
  defines "w1 \<equiv> plot_trace c2p cd1 o1 True w"
  defines "w2 \<equiv> run c2p (map (\<lambda>(el, t). Frame el t) fs) w1"
  assumes "hasTransition o1" and "hasTransition o2" and "in_selection tr el"
  shows "count_list (calls w) (k, el') =
           (if (k, el') \<in> set (started w) \<and> \<not> is_running w k el' then 1 else 0)
     \<and> is_running w2 (made w) el \<and> count_list (calls w2) (made w, el) = 0
     \<and> count_list (calls (finish el w2)) (made w, el) = 1
     \<and> count_list (calls (plot_trace c2p cd2 o2 g2 w2)) (made w, el) = 1"
proof -
  have cw: "consistent w" unfolding w_def by (rule consistent_run [OF consistent_initial])
  then have c1: "consistent w1" unfolding w1_def by (rule consistent_plot_trace)
  then have c2: "consistent w2" unfolding w2_def by (rule consistent_run)
  have sel: "in_selection (w_trace w) el"
    using assms(6) by (simp add: w_def run_flags initial_world_def)
  have sel2: "in_selection (w_trace w2) el"
    using sel by (simp add: w2_def w1_def run_flags plot_trace_trace)
       (cases el; simp add: init_flags)
  have r1: "is_running w1 (made w) el"
    unfolding w1_def using plot_trace_running [OF assms(4) sel] by simp
  have s1: "(made w, el) \<in> set (started w1)"
    unfolding w1_def by (rule plot_trace_started [OF assms(4) sel])
  have r2: "is_running w2 (made w) el"
    using r1 frames_fields [of c2p fs w1] by (simp add: w2_def is_running_def)
  have s2: "(made w, el) \<in> set (started w2)"
    using s1 frames_started [of c2p fs w1] by (simp add: w2_def)
  have m2: "made w2 = Suc (made w)"
    using frames_started [of c2p fs w1] assms(4) by (simp add: w2_def w1_def plot_trace_made)
  have a: "count_list (calls w) (k, el') =
           (if (k, el') \<in> set (started w) \<and> \<not> is_running w k el' then 1 else 0)"
    by (rule consistent_count [OF cw])
  have b: "count_list (calls w2) (made w, el) = 0"
    using consistent_count [OF c2, where k = "made w" and el = el] r2 by simp
  have c: "count_list (calls (finish el w2)) (made w, el) = 1"
    using consistent_count [OF consistent_finish [OF c2], where k = "made w" and el = el] s2
    by (simp add: finish_started finish_not_running)
  have n: "\<not> is_running (plot_trace c2p cd2 o2 g2 w2) (made w) el"
    using plot_trace_running [OF assms(5) sel2, of c2p cd2 g2 "made w"] m2 by simp
  have d: "count_list (calls (plot_trace c2p cd2 o2 g2 w2)) (made w, el) = 1"
    using consistent_count [OF consistent_plot_trace [OF c2], where k = "made w" and el = el]
      n s2 plot_trace_started_mono [of w2 c2p cd2 o2 g2]
    by auto
  from a r2 b c d show ?thesis by simp
qed

theorem completion_callback_exactly_once_witness:
  "count_list (calls world_midflight) (0, DeltaText) = 0
   \<and> count_list (calls (finish DeltaText world_midflight)) (0, DeltaText) = 1
   \<and> count_list (calls (plot_trace example_c2p cd_second example_opts True world_midflight))
        (0, DeltaText) = 1"
  using completion_callback_exactly_once [where ?o1.0 = example_opts and ?o2.0 = example_opts
      and tr = example_trace and el = DeltaText and c2p = example_c2p and es = "[]" and k = 0
      and el' = NumberText and ?cd1.0 = cd_first and fs = "[(DeltaText, Fin 0.5)]"
      and ?cd2.0 = cd_second and ?g2.0 = True]
  by (simp add: example_has initial_fields example_trace_flags
        world_midflight_def world_animating_def del: run.simps(2))

section \<open>Properties of the axis adapter\<close>

lemma length_set_prop: "length (set_prop h v k x) = length h"
  by (simp add: set_prop_def split: jsval.splits)

lemma take_set_prop: "n \<le> a \<Longrightarrow> take n (set_prop h (Ref a) k x) = take n h"
  by (simp add: set_prop_def)

lemma coerce_frame:
  "n \<le> a \<Longrightarrow> take n (Lib_coerce env cin (Ref a) attr dflt h) = take n h"
  "length (Lib_coerce env cin cout attr dflt h) = length h"
  by (simp_all add: Lib_coerce_def Let_def take_set_prop length_set_prop)

lemma coerce_all_frame:
  assumes "n \<le> a"
  shows "take n (foldl (\<lambda>h' (attr, dflt). Lib_coerce env cin (Ref a) attr dflt h') h attrs) = take n h
    \<and> length (foldl (\<lambda>h' (attr, dflt). Lib_coerce env cin (Ref a) attr dflt h') h attrs) = length h"
  using assms by (induction attrs arbitrary: h) (auto simp add: coerce_frame)

lemma mockAxis_take: "take (length h) (fst (mockAxis env gd opts zrange h)) = h"
  using coerce_all_frame [of "length h" "Suc (length h)"]
  by (simp add: mockAxis_def new_object_def Let_def handleAxisDefaults_def
      handleAxisPositionDefaults_def)

lemma mockAxis_result:
  "snd (mockAxis env gd opts zrange h) =
       (if gd = Undefined \<or> opts = Undefined \<or> get_prop h gd ''_fullLayout'' = Undefined
        then Inl TypeError else Inr (Ref (Suc (length h))))"
  by (simp add: mockAxis_def new_object_def Let_def)

lemma mockAxis_length:
  "length (fst (mockAxis env gd opts zrange h)) =
       (if gd = Undefined \<or> opts = Undefined then length h
        else if get_prop h gd ''_fullLayout'' = Undefined then length h + 2 else length h + 3)"
  using coerce_all_frame [of "length h" "Suc (length h)"]
  by (simp add: mockAxis_def new_object_def Let_def handleAxisDefaults_def
      handleAxisPositionDefaults_def)

lemma frame_get_prop:
  assumes "take (length h) h' = h" and "is_object h v"
  shows "get_prop h' v k = get_prop h v k"
proof -
  from assms(2) obtain a where v: "v = Ref a" and a: "a < length h"
    by (auto simp add: is_object_def split: jsval.splits)
  from assms(1) have l: "length h \<le> length h'"
    by (metis length_take min.cobounded1)
  from assms(1) a have "h' ! a = h ! a" by (metis nth_take)
  with v a l show ?thesis by (simp add: get_prop_def)
qed


text \<open>
  C9. \<open>mockAxis\<close> leaves the heap that it was called on as it was: every object
  that existed keeps every property, those of \<open>gd\<close>, of \<open>opts\<close> and of the
  objects they refer to included. What it returns is the address of a new object,
  \<open>axisOut\<close>, which did not exist before the call; the objects it makes are added
  behind the old ones.
\<close>

theorem mockAxis_frame:
  "take (length h) (fst (mockAxis env gd opts zrange h)) = h
   \<and> (is_object h v \<longrightarrow> get_prop (fst (mockAxis env gd opts zrange h)) v k = get_prop h v k)
   \<and> snd (mockAxis env gd opts zrange h) =
       (if gd = Undefined \<or> opts = Undefined \<or> get_prop h gd ''_fullLayout'' = Undefined
        then Inl TypeError else Inr (Ref (Suc (length h))))
   \<and> length (fst (mockAxis env gd opts zrange h)) =
       (if gd = Undefined \<or> opts = Undefined then length h
        else if get_prop h gd ''_fullLayout'' = Undefined then length h + 2 else length h + 3)"
  using mockAxis_take [of h env gd opts zrange] mockAxis_result [of env gd opts zrange h]
    mockAxis_length [of env gd opts zrange h]
    frame_get_prop [of h "fst (mockAxis env gd opts zrange h)" v k]
  by blast


lemma example_heap_reads:
  "length example_heap = 5"
  "get_prop example_heap (Ref 0) ''_fullLayout'' = Ref 1"
  "get_prop example_heap (Ref 3) ''tickvals'' = Ref 4"
  "is_object example_heap (Ref 3)"
  by (simp_all add: example_heap_def get_prop_def is_object_def)

theorem mockAxis_frame_witness:
  "take 5 (fst (mockAxis example_env (Ref 0) (Ref 3) Undefined example_heap)) = example_heap
   \<and> is_object example_heap (Ref 3)
   \<and> get_prop (fst (mockAxis example_env (Ref 0) (Ref 3) Undefined example_heap)) (Ref 3)
         ''tickvals'' = Ref 4
   \<and> snd (mockAxis example_env (Ref 0) (Ref 3) Undefined example_heap) = Inr (Ref 6)
   \<and> length (fst (mockAxis example_env (Ref 0) (Ref 3) Undefined example_heap)) = 8"
  using mockAxis_frame [of example_heap example_env "Ref 0" "Ref 3" Undefined "Ref 3" "''tickvals''"]
  by (simp add: example_heap_reads)

end
